theory Spec2Isabelle
  imports Main "HOL-Library.Sublist"
begin

section \<open>The request admission pipeline of pkg/config/middleware.go\<close>

text \<open>
  The Go file assembles a negroni middleware chain from the process configuration and
  defines four gates of its own: the JWT gate \<open>auth\<close>, the group gate
  \<open>requireGroupClaim\<close> and the two telemetry gates. Every function of the file is a HOL
  function of the same name; the global \<open>Config\<close> is an explicit argument, the response
  writer and the metric clients are an explicit state, and a Go panic is the outcome
  \<open>Panicked\<close>. What the file calls in net/http, negroni and go-jwt-middleware is written
  out as far as the gates depend on it.
\<close>

subsection \<open>Configuration\<close>

text \<open>
  The fields of \<open>Config\<close> that decide what the gates do. The fields that only address
  the tracer (\<open>StatsdAPMEnabled\<close> and the statsd host, port and service name) and
  \<open>JWTAuthDebug\<close>, which only turns logging on, are left out, and so are the start and stop
  of the tracer and the log output.
\<close>

record config =
  MiddlewareGzipEnabled :: bool
  MiddlewareVerboseLoggerEnabled :: bool
  StatsdEnabled :: bool
  PrometheusEnabled :: bool
  NewRelicEnabled :: bool
  CORSEnabled :: bool
  JWTAuthEnabled :: bool
  JWTAuthSigningMethod :: string
  JWTAuthSecret :: string
  JWTAuthPrefixWhitelistPaths :: "string list"
  JWTAuthExactWhitelistPaths :: "string list"
  JWTAuthCookieTokenName :: string
  JWTAuthUserProperty :: string
  JWTAuthNoTokenStatusCode :: int
  JWTAuthNoTokenRedirectURL :: string
  JWTAuthRequireGroupClaim :: string
  WebPrefix :: string
  PProfEnabled :: bool

text \<open>The status constants of net/http that the gates use.\<close>

definition StatusTemporaryRedirect :: int where
  "StatusTemporaryRedirect = 307"

definition StatusUnauthorized :: int where
  "StatusUnauthorized = 401"

definition StatusInternalServerError :: int where
  "StatusInternalServerError = 500"

subsection \<open>Tokens, claims and the request\<close>

text \<open>
  A claim value is a Go \<open>interface{}\<close> as encoding/json decodes it; \<open>StrSlice\<close> is a
  \<open>[]string\<close> put there by hand. The payload of a number plays no part here.
\<close>

datatype iface =
    Nil
  | Boolean bool
  | Number int
  | Str string
  | StrSlice "string list"
  | Slice "iface list"
  | Object "(string \<times> iface) list"

text \<open>
  \<open>jwt.Claims\<close> is an interface: \<open>jwt.MapClaims\<close> (a \<open>map[string]interface{}\<close>) or some other
  implementation.
\<close>

datatype claims = MapClaims "string \<Rightarrow> iface option" | OtherClaims

record token =
  Header_alg :: string
  Claims :: claims
  Valid :: bool

text \<open>
  The value stored under a string key of the request context: the \<open>*jwt.Token\<close> that the
  JWT middleware stores (never a nil pointer), or a value of any other type.
\<close>

datatype ctx_value = JwtToken token | OtherValue

text \<open>
  The parts of \<open>*http.Request\<close> that the gates read. \<open>Cookie\<close> is \<open>r.Cookie(name)\<close>, with
  \<open>None\<close> for a non-nil error. \<open>AuthHeaderToken\<close> is what \<open>jwtmiddleware.FromAuthHeader(r)\<close>
  returns: the bearer token of the Authorization header, the empty string when there is no
  such header, an error (\<open>Inl\<close>) when the header is not of the form \<open>Bearer {token}\<close>.
  \<open>ctx_whiteListed\<close> is the context value under the key \<open>whiteListed{}\<close>, which only this
  package can name and which it only ever sets to \<open>true\<close>; \<open>ctx_values\<close> are the context
  values under string keys.
\<close>

record request =
  Method :: string
  URL_Path :: string
  URL_EscapedPath :: string
  RequestURI :: string
  Cookie :: "string \<Rightarrow> string option"
  AuthHeaderToken :: "string + string"
  ctx_whiteListed :: "bool option"
  ctx_values :: "string \<Rightarrow> ctx_value option"

subsection \<open>The response writer\<close>

text \<open>
  The \<open>negroni.ResponseWriter\<close>: the status it reports through \<open>Status()\<close> (0 until a
  header is written), its header map and the body written so far. A header name is kept as
  the code writes it; net/http stores names in its canonical capitalisation, which HTTP does
  not tell apart, and every name that is tested here is written in that form.
\<close>

record response_writer =
  rw_status :: int
  rw_header :: "(string \<times> string) list"
  rw_body :: string

fun Header_Del :: "(string \<times> string) list \<Rightarrow> string \<Rightarrow> (string \<times> string) list" where
  "Header_Del [] k = []"
| "Header_Del ((k', v) # h) k = (if k' = k then Header_Del h k else (k', v) # Header_Del h k)"

definition Header_Set :: "(string \<times> string) list \<Rightarrow> string \<Rightarrow> string \<Rightarrow> (string \<times> string) list" where
  "Header_Set h k v = Header_Del h k @ [(k, v)]"

fun Header_Get :: "(string \<times> string) list \<Rightarrow> string \<Rightarrow> string" where
  "Header_Get [] k = []"
| "Header_Get ((k', v) # h) k = (if k' = k then v else Header_Get h k)"

text \<open>
  \<open>http.Error\<close> of net/http: it drops Content-Length, sets the two content headers,
  writes the status and then the message and a newline.
\<close>

definition http_Error :: "response_writer \<Rightarrow> string \<Rightarrow> int \<Rightarrow> response_writer" where
  "http_Error w msg code =
     w\<lparr>rw_status := code,
       rw_header := Header_Set (Header_Set (Header_Del (rw_header w) ''Content-Length'')
                      ''Content-Type'' ''text/plain; charset=utf-8'')
                      ''X-Content-Type-Options'' ''nosniff'',
       rw_body := rw_body w @ msg @ [CHR 0x0A]\<rparr>"

subsection \<open>State, handlers and the collaborators outside the repository\<close>

text \<open>
  The calls made on the statsd client (the duration itself is wall-clock time and is not
  kept) and the label values of each increment of the Prometheus counter and of each
  observation of the latency histogram.
\<close>

datatype statsd_call = Incr string "string list" | TimeInMilliseconds string "string list"

record state =
  rw :: response_writer
  statsd_calls :: "statsd_call list"
  prom_counter :: "(string \<times> string \<times> string) list"
  prom_latencies :: "(string \<times> string \<times> string) list"

text \<open>
  How a handler ends: it returns, or it panics. A panic carries its value as \<open>%s\<close> formats
  it and the trace that \<open>runtime.Stack\<close> yields where the panic is recovered.
\<close>

datatype outcome = Returned | Panicked string string

type_synonym handler = "request \<Rightarrow> state \<Rightarrow> outcome \<times> state"

text \<open>A \<open>negroni.Handler\<close>: \<open>ServeHTTP(w, r, next)\<close>.\<close>

type_synonym middleware = "request \<Rightarrow> handler \<Rightarrow> state \<Rightarrow> outcome \<times> state"

datatype signing_method = SigningMethodHS256 | SigningMethodRS256

fun Alg :: "signing_method \<Rightarrow> string" where
  "Alg SigningMethodHS256 = ''HS256''"
| "Alg SigningMethodRS256 = ''RS256''"

text \<open>
  The validation key: a byte slice, an RSA public key (modulus and exponent), or the nil
  pointer that \<open>ParseRSAPublicKeyFromPEM\<close> returns beside its error.
\<close>

datatype validation_key = Bytes string | RSAPublicKey nat nat | NilKey

text \<open>
  The packages the file imports are parameters: the middlewares of other packages, the two
  handler wrappers, the Prometheus scrape handler, the two functions of jwt-go
  (\<open>jwt.Parse\<close> takes the token string and what the key getter returns), and the string
  functions that \<open>http.Redirect\<close> calls: \<open>url.Parse\<close> (the scheme and the host of the parsed
  URL, \<open>None\<close> for a non-nil error), \<open>path.Clean\<close>, the two escape functions of net/http
  and \<open>http.StatusText\<close>.
\<close>

record externals =
  gzip_Gzip :: middleware
  negronilogrus_Middleware :: middleware
  negroninewrelic_Newrelic :: middleware
  cors_New :: middleware
  negroni_Static :: "string \<Rightarrow> middleware"
  pprof_New :: "handler \<Rightarrow> handler"
  http_StripPrefix :: "string \<Rightarrow> handler \<Rightarrow> handler"
  promhttp_Handler :: handler
  jwt_Parse :: "string \<Rightarrow> validation_key \<times> string option \<Rightarrow> string + token"
  jwt_ParseRSAPublicKeyFromPEM :: "string \<Rightarrow> string + nat \<times> nat"
  url_Parse :: "string \<Rightarrow> (string \<times> string) option"
  path_Clean :: "string \<Rightarrow> string"
  hexEscapeNonASCII :: "string \<Rightarrow> string"
  htmlEscape :: "string \<Rightarrow> string"
  http_StatusText :: "int \<Rightarrow> string"

text \<open>\<open>Global.Prometheus\<close>: the scrape path, and whether \<open>RequestHistogram\<close> is non-nil.\<close>

record global =
  Prometheus_ScrapePath :: string
  Prometheus_RequestHistogram :: bool

subsection \<open>http.Redirect and jwtErrorHandler\<close>

definition HasSuffix :: "string \<Rightarrow> string \<Rightarrow> bool" where
  "HasSuffix s suf = (length suf \<le> length s \<and> drop (length s - length suf) s = suf)"

text \<open>The directory that \<open>path.Split\<close> returns: the path up to and including its last slash.\<close>

definition path_Split_dir :: "string \<Rightarrow> string" where
  "path_Split_dir p = rev (dropWhile (\<lambda>c. c \<noteq> CHR ''/'') (rev p))"

text \<open>
  The first part of \<open>http.Redirect\<close>: a target that parses and has neither scheme nor host is
  made absolute against the directory of the request path (unless it starts with a slash),
  and its path, up to the first question mark, is cleaned with a trailing slash preserved.
  Every other target is left as it is.
\<close>

definition redirect_url :: "externals \<Rightarrow> request \<Rightarrow> string \<Rightarrow> string" where
  "redirect_url ext r url =
     (case url_Parse ext url of
        None \<Rightarrow> url
      | Some (scheme, host) \<Rightarrow>
          if scheme = [] \<and> host = []
          then (let oldpath = (if URL_Path r = [] then ''/'' else URL_Path r);
                    url1 = (case url of
                              [] \<Rightarrow> path_Split_dir oldpath @ url
                            | c # cs \<Rightarrow> if c \<noteq> CHR ''/'' then path_Split_dir oldpath @ url
                                       else url);
                    path = takeWhile (\<lambda>c. c \<noteq> CHR ''?'') url1;
                    query = dropWhile (\<lambda>c. c \<noteq> CHR ''?'') url1;
                    trailing = HasSuffix path ''/'';
                    cleaned = path_Clean ext path;
                    cleaned = (if trailing \<and> \<not> HasSuffix cleaned ''/'' then cleaned @ ''/''
                               else cleaned)
                in cleaned @ query)
          else url)"

text \<open>
  The rest of \<open>http.Redirect\<close>: Location is set to the escaped target; unless the response
  already had a Content-Type, a GET or HEAD request gets the HTML content type and a GET
  request the short HTML note, which \<open>Fprintln\<close> ends with one more newline.
\<close>

definition http_Redirect ::
  "externals \<Rightarrow> response_writer \<Rightarrow> request \<Rightarrow> string \<Rightarrow> int \<Rightarrow> response_writer" where
  "http_Redirect ext w r url code =
     (let url' = redirect_url ext r url;
          hadCT = (''Content-Type'' \<in> set (map fst (rw_header w)));
          h = Header_Set (rw_header w) ''Location'' (hexEscapeNonASCII ext url');
          h = (if \<not> hadCT \<and> (Method r = ''GET'' \<or> Method r = ''HEAD'')
               then Header_Set h ''Content-Type'' ''text/html; charset=utf-8'' else h);
          body = (if \<not> hadCT \<and> Method r = ''GET''
                  then ''<a href=\"'' @ htmlEscape ext url' @ ''\">'' @ http_StatusText ext code
                       @ ''</a>.'' @ [CHR 0x0A, CHR 0x0A]
                  else [])
      in w\<lparr>rw_status := code, rw_header := h, rw_body := rw_body w @ body\<rparr>)"

definition jwtErrorHandler ::
  "externals \<Rightarrow> config \<Rightarrow> response_writer \<Rightarrow> request \<Rightarrow> string \<Rightarrow> response_writer" where
  "jwtErrorHandler ext cfg w r err =
     (if JWTAuthNoTokenStatusCode cfg = StatusTemporaryRedirect
      then http_Redirect ext w r (JWTAuthNoTokenRedirectURL cfg) StatusTemporaryRedirect
      else http_Error
             (w\<lparr>rw_header := Header_Set (rw_header w) ''WWW-Authenticate''
                   (''Bearer realm=\"'' @ JWTAuthNoTokenRedirectURL cfg @ ''\"'')\<rparr>)
             ''Not authorized'' StatusUnauthorized)"

subsection \<open>The JWT middleware of go-jwt-middleware\<close>

record Options =
  ValidationKeyGetter :: "validation_key \<times> string option"
  SigningMethod :: signing_method
  Extractor :: "request \<Rightarrow> string + string"
  UserProperty :: string
  ErrorHandler :: "response_writer \<Rightarrow> request \<Rightarrow> string \<Rightarrow> response_writer"

text \<open>
  \<open>jwtmiddleware.FromFirst\<close>: the extractors run in order; the first error ends the search
  with that error, the first non-empty token ends it with that token.
\<close>

fun FromFirst :: "(request \<Rightarrow> string + string) list \<Rightarrow> request \<Rightarrow> string + string" where
  "FromFirst [] r = Inr []"
| "FromFirst (ex # exs) r =
     (case ex r of
        Inl err \<Rightarrow> Inl err
      | Inr tok \<Rightarrow> if tok \<noteq> [] then Inr tok else FromFirst exs r)"

text \<open>
  \<open>CheckJWT\<close> after extraction: parse and verify the token, compare its algorithm with the
  configured one, and store the parsed token in the request context under \<open>UserProperty\<close>.
  The result is the error (if any), the request and the state.
\<close>

definition parse_and_store ::
  "externals \<Rightarrow> Options \<Rightarrow> request \<Rightarrow> state \<Rightarrow> string \<Rightarrow> string option \<times> request \<times> state" where
  "parse_and_store ext opts r st tok =
     (case jwt_Parse ext tok (ValidationKeyGetter opts) of
        Inl err \<Rightarrow>
          (Some (''Error parsing token: '' @ err), r, st\<lparr>rw := ErrorHandler opts (rw st) r err\<rparr>)
      | Inr parsedToken \<Rightarrow>
          if Alg (SigningMethod opts) \<noteq> Header_alg parsedToken
          then (let message = ''Expected '' @ Alg (SigningMethod opts)
                        @ '' signing method but token specified '' @ Header_alg parsedToken
                in (Some (''Error validating token algorithm: '' @ message), r,
                    st\<lparr>rw := ErrorHandler opts (rw st) r message\<rparr>))
          else if \<not> Valid parsedToken
          then (Some ''Token is invalid'', r,
                st\<lparr>rw := ErrorHandler opts (rw st) r ''The token isn't valid''\<rparr>)
          else (None,
                r\<lparr>ctx_values := (ctx_values r)(UserProperty opts \<mapsto> JwtToken parsedToken)\<rparr>,
                st))"

text \<open>
  \<open>CheckJWT\<close>, with the defaults the file leaves in place (\<open>EnableAuthOnOptions\<close> and
  \<open>CredentialsOptional\<close> both false): an OPTIONS request passes unchecked, an extraction
  error or an empty token is reported through the error handler.
\<close>

definition CheckJWT ::
  "externals \<Rightarrow> Options \<Rightarrow> request \<Rightarrow> state \<Rightarrow> string option \<times> request \<times> state" where
  "CheckJWT ext opts r st =
     (if Method r = ''OPTIONS'' then (None, r, st)
      else case Extractor opts r of
        Inl err \<Rightarrow>
          (Some (''Error extracting token: '' @ err), r, st\<lparr>rw := ErrorHandler opts (rw st) r err\<rparr>)
      | Inr tok \<Rightarrow>
          if tok = []
          then (Some ''Required authorization token not found'', r,
                st\<lparr>rw := ErrorHandler opts (rw st) r ''Required authorization token not found''\<rparr>)
          else parse_and_store ext opts r st tok)"

definition HandlerWithNext :: "externals \<Rightarrow> Options \<Rightarrow> middleware" where
  "HandlerWithNext ext opts r next st =
     (case CheckJWT ext opts r st of
        (None, r', st') \<Rightarrow> next r' st'
      | (Some err, r', st') \<Rightarrow> (Returned, st'))"

subsection \<open>auth.whitelist\<close>

definition HasPrefix :: "string \<Rightarrow> string \<Rightarrow> bool" where
  "HasPrefix s p = (length p \<le> length s \<and> take (length p) s = p)"

definition TrimPrefix :: "string \<Rightarrow> string \<Rightarrow> string" where
  "TrimPrefix s p = (if HasPrefix s p then drop (length p) s else s)"

record auth =
  PrefixWhitelistPaths :: "string list"
  ExactWhitelistPaths :: "string list"
  JWTMiddleware :: Options

text \<open>The two \<open>for ... range\<close> statements of \<open>whitelist\<close>, each returning at the first match.\<close>

fun exact_loop :: "string list \<Rightarrow> string \<Rightarrow> bool" where
  "exact_loop [] path = False"
| "exact_loop (p # ps) path = (if p = path then True else exact_loop ps path)"

fun prefix_loop :: "string list \<Rightarrow> string \<Rightarrow> bool" where
  "prefix_loop [] path = False"
| "prefix_loop (p # ps) path =
     (if p \<noteq> [] \<and> HasPrefix path p then True else prefix_loop ps path)"

definition effective_path :: "config \<Rightarrow> request \<Rightarrow> string" where
  "effective_path cfg req =
     (if WebPrefix cfg \<noteq> [] then TrimPrefix (URL_Path req) (WebPrefix cfg) else URL_Path req)"

definition whitelist :: "config \<Rightarrow> auth \<Rightarrow> request \<Rightarrow> bool" where
  "whitelist cfg a req =
     (let path = effective_path cfg req in
      if JWTAuthNoTokenStatusCode cfg = StatusUnauthorized \<and> exact_loop (ExactWhitelistPaths a) path
      then True
      else prefix_loop (PrefixWhitelistPaths a) path)"


subsection \<open>setupJWTAuthMiddleware and auth.ServeHTTP\<close>

text \<open>The \<open>switch\<close> on \<open>Config.JWTAuthSigningMethod\<close>: method, key and key error.\<close>

definition signing_setup ::
  "externals \<Rightarrow> config \<Rightarrow> signing_method \<times> validation_key \<times> string option" where
  "signing_setup ext cfg =
     (if JWTAuthSigningMethod cfg = ''HS256''
      then (SigningMethodHS256, Bytes (JWTAuthSecret cfg), None)
      else if JWTAuthSigningMethod cfg = ''RS256''
      then (case jwt_ParseRSAPublicKeyFromPEM ext (JWTAuthSecret cfg) of
              Inl err \<Rightarrow> (SigningMethodRS256, NilKey, Some err)
            | Inr (n, e) \<Rightarrow> (SigningMethodRS256, RSAPublicKey n e, None))
      else (SigningMethodHS256, Bytes [], None))"

text \<open>The first extractor handed to \<open>FromFirst\<close>: the cookie, and no error when it is missing.\<close>

definition cookie_extractor :: "config \<Rightarrow> request \<Rightarrow> string + string" where
  "cookie_extractor cfg r =
     (case Cookie r (JWTAuthCookieTokenName cfg) of
        None \<Rightarrow> Inr []
      | Some v \<Rightarrow> Inr v)"

text \<open>
  \<open>jwtmiddleware.New\<close>: an empty \<open>UserProperty\<close> becomes \<open>user\<close>. (Its defaults for a missing
  error handler and a missing extractor do not arise: the file sets both.)
\<close>

definition jwtmiddleware_New :: "Options \<Rightarrow> Options" where
  "jwtmiddleware_New opts =
     (if UserProperty opts = [] then opts\<lparr>UserProperty := ''user''\<rparr> else opts)"

definition setupJWTAuthMiddleware :: "externals \<Rightarrow> config \<Rightarrow> auth" where
  "setupJWTAuthMiddleware ext cfg =
     (case signing_setup ext cfg of
        (signingMethod, validationKey, errParsingKey) \<Rightarrow>
          \<lparr>PrefixWhitelistPaths = JWTAuthPrefixWhitelistPaths cfg,
           ExactWhitelistPaths = JWTAuthExactWhitelistPaths cfg,
           JWTMiddleware = jwtmiddleware_New
             \<lparr>ValidationKeyGetter = (validationKey, errParsingKey),
              SigningMethod = signingMethod,
              Extractor = FromFirst [cookie_extractor cfg, AuthHeaderToken],
              UserProperty = JWTAuthUserProperty cfg,
              ErrorHandler = jwtErrorHandler ext cfg\<rparr>\<rparr>)"

definition auth_ServeHTTP :: "externals \<Rightarrow> config \<Rightarrow> auth \<Rightarrow> middleware" where
  "auth_ServeHTTP ext cfg a req next st =
     (if whitelist cfg a req
      then next (req\<lparr>ctx_whiteListed := Some True\<rparr>) st
      else HandlerWithNext ext (JWTMiddleware a) req next st)"

subsection \<open>requireGroupClaim\<close>

record requireGroupClaim =
  Group :: string

definition setupJWTRequireGroupClaimMiddleware :: "config \<Rightarrow> requireGroupClaim" where
  "setupJWTRequireGroupClaimMiddleware cfg = \<lparr>Group = JWTAuthRequireGroupClaim cfg\<rparr>"

text \<open>
  Modelled from the spec: \<open>util.SafeStringSlice\<close> of pkg/util, which is not among the
  sources. The spec has the \<open>groups\<close> claim read defensively into a set of strings, where a
  missing, null, non-collection or otherwise wrong-typed value gives the empty set. So a
  slice of strings is returned as it is, and every other value, a slice with an element
  that is not a string among them, gives the empty slice.
\<close>

fun strings_of :: "iface list \<Rightarrow> string list option" where
  "strings_of [] = Some []"
| "strings_of (Str s # vs) = (case strings_of vs of None \<Rightarrow> None | Some ss \<Rightarrow> Some (s # ss))"
| "strings_of (v # vs) = None"

fun SafeStringSlice :: "iface \<Rightarrow> string list" where
  "SafeStringSlice (StrSlice ss) = ss"
| "SafeStringSlice (Slice vs) = (case strings_of vs of None \<Rightarrow> [] | Some ss \<Rightarrow> ss)"
| "SafeStringSlice v = []"

text \<open>
  What the spec calls a collection of strings: a \<open>[]string\<close>, or a \<open>[]interface{}\<close> whose
  elements are all strings.
\<close>

fun is_string_collection :: "iface \<Rightarrow> bool" where
  "is_string_collection (StrSlice ss) = True"
| "is_string_collection (Slice vs) = (strings_of vs \<noteq> None)"
| "is_string_collection v = False"

text \<open>Indexing a Go map: the zero value, a nil interface, for a missing key.\<close>

definition map_index :: "(string \<Rightarrow> iface option) \<Rightarrow> string \<Rightarrow> iface" where
  "map_index m k = (case m k of None \<Rightarrow> Nil | Some v \<Rightarrow> v)"

fun group_loop :: "string list \<Rightarrow> string \<Rightarrow> bool" where
  "group_loop [] g = False"
| "group_loop (s # groups) g = (if s = g then True else group_loop groups g)"

definition checkGroups :: "config \<Rightarrow> requireGroupClaim \<Rightarrow> request \<Rightarrow> bool" where
  "checkGroups cfg c r =
     (let whiteListed = (case ctx_whiteListed r of None \<Rightarrow> False | Some b \<Rightarrow> b) in
      if whiteListed then True
      else case ctx_values r (JWTAuthUserProperty cfg) of
             Some (JwtToken token) \<Rightarrow>
               (case Claims token of
                  MapClaims claims \<Rightarrow>
                    if Valid token
                    then group_loop (SafeStringSlice (map_index claims ''groups'')) (Group c)
                    else False
                | OtherClaims \<Rightarrow> False)
           | _ \<Rightarrow> False)"

definition requireGroupClaim_ServeHTTP ::
  "externals \<Rightarrow> config \<Rightarrow> requireGroupClaim \<Rightarrow> middleware" where
  "requireGroupClaim_ServeHTTP ext cfg c r next st =
     (if \<not> checkGroups cfg c r
      then (Returned,
            st\<lparr>rw := jwtErrorHandler ext cfg (rw st) r ''Not member of authorized group''\<rparr>)
      else next r st)"

subsection \<open>The telemetry gates\<close>

text \<open>\<open>strconv.Itoa\<close>.\<close>

definition digit :: "nat \<Rightarrow> char" where
  "digit d = ''0123456789'' ! d"

fun digits :: "nat \<Rightarrow> string" where
  "digits n = (if n < 10 then [digit n] else digits (n div 10) @ [digit (n mod 10)])"

declare digits.simps [simp del]

definition Itoa :: "int \<Rightarrow> string" where
  "Itoa i = (if i < 0 then CHR ''-'' # digits (nat (- i)) else digits (nat i))"

text \<open>
  The deferred function of \<open>statsdMiddleware.ServeHTTP\<close> runs when \<open>next\<close> returns and also
  when it panics; it reads the status from the writer at that moment.
\<close>

definition statsdMiddleware_ServeHTTP :: middleware where
  "statsdMiddleware_ServeHTTP r next st =
     (case next r st of
        (out, st') \<Rightarrow>
          (let status = Itoa (rw_status (rw st'));
               tags = [''status:'' @ status, ''path:'' @ RequestURI r, ''method:'' @ Method r]
           in (out, st'\<lparr>statsd_calls := statsd_calls st' @
                          [Incr ''http.requests.count'' tags,
                           TimeInMilliseconds ''http.requests.duration'' tags]\<rparr>)))"

text \<open>
  \<open>prometheusMiddleware.ServeHTTP\<close>: the scrape path is served by the handler of promhttp;
  every other request is counted, and observed when the histogram is set, by the deferred
  function (which also prints the duration to standard output; that is not kept).
\<close>

definition prometheusMiddleware_ServeHTTP :: "externals \<Rightarrow> global \<Rightarrow> middleware" where
  "prometheusMiddleware_ServeHTTP ext g r next st =
     (if URL_EscapedPath r = Prometheus_ScrapePath g
      then promhttp_Handler ext r st
      else case next r st of
        (out, st') \<Rightarrow>
          (let status = Itoa (rw_status (rw st'));
               labels = (status, RequestURI r, Method r)
           in (out, st'\<lparr>prom_counter := prom_counter st' @ [labels],
                        prom_latencies :=
                          (if Prometheus_RequestHistogram g then prom_latencies st' @ [labels]
                           else prom_latencies st')\<rparr>)))"

subsection \<open>negroni: recovery and the chain\<close>

text \<open>
  \<open>negroni.Recovery\<close> as \<open>negroni.NewRecovery\<close> builds it and \<open>setupRecoveryMiddleware\<close>
  leaves it, with \<open>PrintStack\<close> on and the text formatter: a panic of \<open>next\<close> is recovered,
  status 500 is written, the content type is set to plain text unless one is set, and
  \<open>PANIC: \<close>, the panic value, a newline and the stack trace are written to the body. (What it
  logs is not kept.)
\<close>

definition FormatPanicError :: "response_writer \<Rightarrow> string \<Rightarrow> string \<Rightarrow> response_writer" where
  "FormatPanicError w val stack =
     w\<lparr>rw_header := (if Header_Get (rw_header w) ''Content-Type'' = []
                       then Header_Set (rw_header w) ''Content-Type'' ''text/plain; charset=utf-8''
                       else rw_header w),
       rw_body := rw_body w @ ''PANIC: '' @ val @ [CHR 0x0A] @ stack\<rparr>"

definition Recovery_ServeHTTP :: middleware where
  "Recovery_ServeHTTP r next st =
     (case next r st of
        (Panicked val stack, st') \<Rightarrow>
          (Returned,
           st'\<lparr>rw := FormatPanicError ((rw st')\<lparr>rw_status := StatusInternalServerError\<rparr>)
                    val stack\<rparr>)
      | (Returned, st') \<Rightarrow> (Returned, st'))"

text \<open>\<open>negroni.Wrap\<close>, which \<open>UseHandler\<close> applies: the handler, then \<open>next\<close>.\<close>

definition Wrap :: "handler \<Rightarrow> middleware" where
  "Wrap h r next st =
     (case h r st of
        (Panicked val stack, st') \<Rightarrow> (Panicked val stack, st')
      | (Returned, st') \<Rightarrow> next r st')"

text \<open>
  The chain that \<open>Use\<close> builds: each handler gets the rest of the chain as \<open>next\<close>, and the
  last one gets a handler that does nothing.
\<close>

fun negroni_chain :: "middleware list \<Rightarrow> handler" where
  "negroni_chain [] = (\<lambda>r st. (Returned, st))"
| "negroni_chain (m # ms) = (\<lambda>r st. m r (negroni_chain ms) st)"

subsection \<open>SetupGlobalMiddleware\<close>

datatype gate =
    Gzip | VerboseLogger | Statsd | Prometheus | NewRelic | CORS
  | JWTAuth | RequireGroupClaim | Static | Recovery

text \<open>The handlers that \<open>SetupGlobalMiddleware\<close> passes to \<open>n.Use\<close>, in the order of the calls.\<close>

definition used_gates :: "config \<Rightarrow> gate list" where
  "used_gates cfg =
     (if MiddlewareGzipEnabled cfg then [Gzip] else [])
     @ (if MiddlewareVerboseLoggerEnabled cfg then [VerboseLogger] else [])
     @ (if StatsdEnabled cfg then [Statsd] else [])
     @ (if PrometheusEnabled cfg then [Prometheus] else [])
     @ (if NewRelicEnabled cfg then [NewRelic] else [])
     @ (if CORSEnabled cfg then [CORS] else [])
     @ (if JWTAuthEnabled cfg then [JWTAuth] else [])
     @ (if JWTAuthRequireGroupClaim cfg \<noteq> [] then [RequireGroupClaim] else [])
     @ [Static]
     @ [Recovery]"

fun gate_handler :: "externals \<Rightarrow> global \<Rightarrow> config \<Rightarrow> gate \<Rightarrow> middleware" where
  "gate_handler ext g cfg Gzip = gzip_Gzip ext"
| "gate_handler ext g cfg VerboseLogger = negronilogrus_Middleware ext"
| "gate_handler ext g cfg Statsd = statsdMiddleware_ServeHTTP"
| "gate_handler ext g cfg Prometheus = prometheusMiddleware_ServeHTTP ext g"
| "gate_handler ext g cfg NewRelic = negroninewrelic_Newrelic ext"
| "gate_handler ext g cfg CORS = cors_New ext"
| "gate_handler ext g cfg JWTAuth = auth_ServeHTTP ext cfg (setupJWTAuthMiddleware ext cfg)"
| "gate_handler ext g cfg RequireGroupClaim =
     requireGroupClaim_ServeHTTP ext cfg (setupJWTRequireGroupClaimMiddleware cfg)"
| "gate_handler ext g cfg Static = negroni_Static ext (WebPrefix cfg)"
| "gate_handler ext g cfg Recovery = Recovery_ServeHTTP"

text \<open>The handler handed to \<open>UseHandler\<close>: prefix stripping and pprof around the application.\<close>

definition final_handler :: "externals \<Rightarrow> config \<Rightarrow> handler \<Rightarrow> handler" where
  "final_handler ext cfg handler =
     (let handler = (if WebPrefix cfg \<noteq> [] then http_StripPrefix ext (WebPrefix cfg) handler
                     else handler)
      in if PProfEnabled cfg then pprof_New ext handler else handler)"

definition SetupGlobalMiddleware :: "externals \<Rightarrow> global \<Rightarrow> config \<Rightarrow> handler \<Rightarrow> handler" where
  "SetupGlobalMiddleware ext g cfg handler =
     negroni_chain (map (gate_handler ext g cfg) (used_gates cfg)
                    @ [Wrap (final_handler ext cfg handler)])"

subsection \<open>Notions for stating properties of the chain\<close>

text \<open>The middlewares \<open>ms\<close> in front of a handler \<open>k\<close>: each gets what follows as \<open>next\<close>.\<close>

fun chain_onto :: "middleware list \<Rightarrow> handler \<Rightarrow> handler" where
  "chain_onto [] k = k"
| "chain_onto (m # ms) k = (\<lambda>r st. m r (chain_onto ms k) st)"

text \<open>
  A request as it arrives when no JWT gate has handled it: its context is not marked as
  whitelisted and holds nothing under the user property.
\<close>

definition unauthenticated :: "config \<Rightarrow> request \<Rightarrow> bool" where
  "unauthenticated cfg r \<longleftrightarrow>
     ctx_whiteListed r \<noteq> Some True \<and> ctx_values r (JWTAuthUserProperty cfg) = None"

text \<open>
  A middleware that hands such a request on only as such a request: what it does with one
  depends on \<open>next\<close> only through what \<open>next\<close> does with unauthenticated requests. This is
  what is assumed of the middlewares of other packages, none of which can name the key
  \<open>whiteListed{}\<close>.
\<close>

definition passes_context :: "config \<Rightarrow> middleware \<Rightarrow> bool" where
  "passes_context cfg m \<longleftrightarrow>
     (\<forall>r next next' st.
        unauthenticated cfg r \<and> (\<forall>r' st'. unauthenticated cfg r' \<longrightarrow> next r' st' = next' r' st')
        \<longrightarrow> m r next st = m r next' st)"

text \<open>The gates that \<open>SetupGlobalMiddleware\<close> adds ahead of the JWT gate and the group gate.\<close>

definition gates_before_auth :: "config \<Rightarrow> gate list" where
  "gates_before_auth cfg =
     (if MiddlewareGzipEnabled cfg then [Gzip] else [])
     @ (if MiddlewareVerboseLoggerEnabled cfg then [VerboseLogger] else [])
     @ (if StatsdEnabled cfg then [Statsd] else [])
     @ (if PrometheusEnabled cfg then [Prometheus] else [])
     @ (if NewRelicEnabled cfg then [NewRelic] else [])
     @ (if CORSEnabled cfg then [CORS] else [])"

subsection \<open>A sample deployment\<close>

text \<open>
  A configuration, collaborators, requests and handlers on which the theorems below are
  instantiated: no optional gate enabled, HS256, one prefix rule and one exact rule, and
  collaborators that pass every request on.
\<close>

definition sample_config :: config where
  "sample_config =
     \<lparr>MiddlewareGzipEnabled = False, MiddlewareVerboseLoggerEnabled = False,
      StatsdEnabled = False, PrometheusEnabled = False, NewRelicEnabled = False,
      CORSEnabled = False, JWTAuthEnabled = True,
      JWTAuthSigningMethod = ''HS256'', JWTAuthSecret = ''secret'',
      JWTAuthPrefixWhitelistPaths = [''/public''], JWTAuthExactWhitelistPaths = [''/metrics''],
      JWTAuthCookieTokenName = ''access_token'', JWTAuthUserProperty = ''flagr_user_property'',
      JWTAuthNoTokenStatusCode = 401, JWTAuthNoTokenRedirectURL = ''https://login'',
      JWTAuthRequireGroupClaim = [], WebPrefix = [], PProfEnabled = False\<rparr>"

definition pass_on :: middleware where
  "pass_on r next st = next r st"

definition ok_handler :: handler where
  "ok_handler r st = (Returned, st\<lparr>rw := (rw st)\<lparr>rw_status := 200\<rparr>\<rparr>)"

definition panicking_handler :: handler where
  "panicking_handler r st =
     (Panicked ''dial tcp 10.0.0.5:5432: connection refused'' ''goroutine 7 [running]:'', st)"

definition admin_token :: token where
  "admin_token =
     \<lparr>Header_alg = ''HS256'',
      Claims = MapClaims [''groups'' \<mapsto> Slice [Str ''admin'']],
      Valid = True\<rparr>"

text \<open>A verifier that accepts the one token string \<open>good\<close>.\<close>

definition sample_Parse :: "string \<Rightarrow> validation_key \<times> string option \<Rightarrow> string + token" where
  "sample_Parse tok key = (if tok = ''good'' then Inr admin_token else Inl ''signature is invalid'')"

text \<open>
  A URL parser for the targets used below: one that starts with \<open>https://\<close> has that scheme
  and the rest as host, every other one has neither. The other string functions leave the
  paths and targets used below as they are.
\<close>

definition sample_url_Parse :: "string \<Rightarrow> (string \<times> string) option" where
  "sample_url_Parse url =
     (if take 8 url = ''https://'' then Some (''https'', drop 8 url) else Some ([], []))"

definition sample_externals :: externals where
  "sample_externals =
     \<lparr>gzip_Gzip = pass_on, negronilogrus_Middleware = pass_on,
      negroninewrelic_Newrelic = pass_on, cors_New = pass_on,
      negroni_Static = (\<lambda>prefix. pass_on),
      pprof_New = (\<lambda>h. h), http_StripPrefix = (\<lambda>prefix h. h),
      promhttp_Handler = ok_handler,
      jwt_Parse = sample_Parse,
      jwt_ParseRSAPublicKeyFromPEM = (\<lambda>pem. Inl ''invalid key''),
      url_Parse = sample_url_Parse, path_Clean = (\<lambda>p. p),
      hexEscapeNonASCII = (\<lambda>s. s), htmlEscape = (\<lambda>s. s),
      http_StatusText = (\<lambda>code. if code = 307 then ''Temporary Redirect'' else [])\<rparr>"

definition sample_global :: global where
  "sample_global = \<lparr>Prometheus_ScrapePath = ''/metrics'', Prometheus_RequestHistogram = True\<rparr>"

text \<open>A GET request for a path, without cookie or Authorization header, its context empty.\<close>

definition get_request :: "string \<Rightarrow> request" where
  "get_request path =
     \<lparr>Method = ''GET'', URL_Path = path, URL_EscapedPath = path, RequestURI = path,
      Cookie = (\<lambda>name. None), AuthHeaderToken = Inr [],
      ctx_whiteListed = None, ctx_values = (\<lambda>key. None)\<rparr>"

text \<open>The same request after the JWT gate has stored a token under the user property.\<close>

definition request_with_token :: "token \<Rightarrow> request" where
  "request_with_token tok =
     (get_request ''/api/v1/flags'')
       \<lparr>ctx_values := [''flagr_user_property'' \<mapsto> JwtToken tok]\<rparr>"

definition new_writer :: response_writer where
  "new_writer = \<lparr>rw_status = 0, rw_header = [], rw_body = []\<rparr>"

definition new_state :: state where
  "new_state = \<lparr>rw = new_writer, statsd_calls = [], prom_counter = [], prom_latencies = []\<rparr>"

section \<open>Properties\<close>

subsection \<open>Strings, headers and the whitelist rules\<close>

lemma HasPrefix_prefix: "HasPrefix s p \<longleftrightarrow> prefix p s"
  by (auto simp: HasPrefix_def prefix_def) (metis append_take_drop_id)

lemma effective_path_eq:
  "effective_path cfg req =
     (if prefix (WebPrefix cfg) (URL_Path req) then drop (length (WebPrefix cfg)) (URL_Path req)
      else URL_Path req)"
  by (auto simp: effective_path_def TrimPrefix_def HasPrefix_prefix)

lemma exact_loop_iff: "exact_loop ps path \<longleftrightarrow> path \<in> set ps"
  by (induction ps) auto

lemma prefix_loop_iff: "prefix_loop ps path \<longleftrightarrow> (\<exists>p \<in> set ps. p \<noteq> [] \<and> prefix p path)"
  by (induction ps) (auto simp: HasPrefix_prefix)

lemma whitelist_iff:
  "whitelist cfg a req \<longleftrightarrow>
     (JWTAuthNoTokenStatusCode cfg = 401 \<and> effective_path cfg req \<in> set (ExactWhitelistPaths a))
     \<or> (\<exists>p \<in> set (PrefixWhitelistPaths a). p \<noteq> [] \<and> prefix p (effective_path cfg req))"
  by (auto simp: whitelist_def Let_def exact_loop_iff prefix_loop_iff StatusUnauthorized_def)

lemma Header_Get_Del: "Header_Get (Header_Del h k) k' = (if k' = k then [] else Header_Get h k')"
  by (induction h k rule: Header_Del.induct) auto

lemma Header_Get_Set_same: "Header_Get (Header_Del h k @ [(k, v)]) k = v"
  by (induction h) auto

lemma Header_Get_Set_other: "k' \<noteq> k \<Longrightarrow> Header_Get (Header_Del h k @ [(k, v)]) k' = Header_Get h k'"
  by (induction h) auto

lemma Header_Get_Set:
  "Header_Get (Header_Set h k v) k' = (if k' = k then v else Header_Get h k')"
  by (simp add: Header_Set_def Header_Get_Set_same Header_Get_Set_other)

subsection \<open>The error handler and the JWT middleware\<close>


lemma rejected_status:
  "JWTAuthNoTokenStatusCode cfg = 401 \<Longrightarrow> rw_status (jwtErrorHandler ext cfg w r reason) = 401"
  by (simp add: jwtErrorHandler_def http_Error_def
      StatusTemporaryRedirect_def StatusUnauthorized_def)



lemma ErrorHandler_setup [simp]:
  "ErrorHandler (JWTMiddleware (setupJWTAuthMiddleware ext cfg)) = jwtErrorHandler ext cfg"
  by (simp add: setupJWTAuthMiddleware_def jwtmiddleware_New_def split: prod.splits)

lemma setup_fields:
  "PrefixWhitelistPaths (setupJWTAuthMiddleware ext cfg) = JWTAuthPrefixWhitelistPaths cfg"
  "ExactWhitelistPaths (setupJWTAuthMiddleware ext cfg) = JWTAuthExactWhitelistPaths cfg"
  "Extractor (JWTMiddleware (setupJWTAuthMiddleware ext cfg))
     = FromFirst [cookie_extractor cfg, AuthHeaderToken]"
  "UserProperty (JWTMiddleware (setupJWTAuthMiddleware ext cfg))
     = (if JWTAuthUserProperty cfg = [] then ''user'' else JWTAuthUserProperty cfg)"
  "ValidationKeyGetter (JWTMiddleware (setupJWTAuthMiddleware ext cfg))
     = (fst (snd (signing_setup ext cfg)), snd (snd (signing_setup ext cfg)))"
  "SigningMethod (JWTMiddleware (setupJWTAuthMiddleware ext cfg)) = fst (signing_setup ext cfg)"
  by (simp_all add: setupJWTAuthMiddleware_def jwtmiddleware_New_def split: prod.splits)

text \<open>What \<open>auth.ServeHTTP\<close> does, with the JWT middleware written out.\<close>

lemma auth_ServeHTTP_cases:
  "auth_ServeHTTP ext cfg a req next st =
     (if whitelist cfg a req then next (req\<lparr>ctx_whiteListed := Some True\<rparr>) st
      else if Method req = ''OPTIONS'' then next req st
      else case Extractor (JWTMiddleware a) req of
        Inl err \<Rightarrow> (Returned, st\<lparr>rw := ErrorHandler (JWTMiddleware a) (rw st) req err\<rparr>)
      | Inr tok \<Rightarrow>
          if tok = []
          then (Returned, st\<lparr>rw := ErrorHandler (JWTMiddleware a) (rw st) req
                  ''Required authorization token not found''\<rparr>)
          else case jwt_Parse ext tok (ValidationKeyGetter (JWTMiddleware a)) of
            Inl err \<Rightarrow> (Returned, st\<lparr>rw := ErrorHandler (JWTMiddleware a) (rw st) req err\<rparr>)
          | Inr parsedToken \<Rightarrow>
              if Alg (SigningMethod (JWTMiddleware a)) \<noteq> Header_alg parsedToken
              then (Returned, st\<lparr>rw := ErrorHandler (JWTMiddleware a) (rw st) req
                      (''Expected '' @ Alg (SigningMethod (JWTMiddleware a))
                       @ '' signing method but token specified '' @ Header_alg parsedToken)\<rparr>)
              else if \<not> Valid parsedToken
              then (Returned, st\<lparr>rw := ErrorHandler (JWTMiddleware a) (rw st) req
                      ''The token isn't valid''\<rparr>)
              else next (req\<lparr>ctx_values :=
                           (ctx_values req)(UserProperty (JWTMiddleware a) \<mapsto> JwtToken parsedToken)\<rparr>)
                     st)"
  by (simp add: auth_ServeHTTP_def HandlerWithNext_def CheckJWT_def parse_and_store_def Let_def
      split: sum.splits)

lemma Extractor_setup:
  "Extractor (JWTMiddleware (setupJWTAuthMiddleware ext cfg)) r =
     (case Cookie r (JWTAuthCookieTokenName cfg) of
        None \<Rightarrow> AuthHeaderToken r
      | Some c \<Rightarrow> if c \<noteq> [] then Inr c else AuthHeaderToken r)"
  by (cases "AuthHeaderToken r")
     (simp_all add: setup_fields cookie_extractor_def split: option.splits)

subsection \<open>The group gate\<close>

lemma group_loop_iff: "group_loop groups g \<longleftrightarrow> g \<in> set groups"
  by (induction groups) auto

lemma SafeStringSlice_not_collection: "\<not> is_string_collection v \<Longrightarrow> SafeStringSlice v = []"
  by (cases v) auto

lemma checkGroups_iff:
  "checkGroups cfg c r \<longleftrightarrow>
     ctx_whiteListed r = Some True
     \<or> (\<exists>token claims. ctx_values r (JWTAuthUserProperty cfg) = Some (JwtToken token)
           \<and> Claims token = MapClaims claims \<and> Valid token
           \<and> Group c \<in> set (SafeStringSlice (map_index claims ''groups'')))"
  by (auto simp: checkGroups_def Let_def group_loop_iff
           split: option.splits ctx_value.splits claims.splits)

lemma group_gate_rejects_unauthenticated:
  "unauthenticated cfg r \<Longrightarrow>
   requireGroupClaim_ServeHTTP ext cfg c r next st =
     (Returned, st\<lparr>rw := jwtErrorHandler ext cfg (rw st) r ''Not member of authorized group''\<rparr>)"
  by (auto simp: requireGroupClaim_ServeHTTP_def checkGroups_iff unauthenticated_def)

subsection \<open>The chain\<close>

lemma negroni_chain_append: "negroni_chain (ms @ ms') = chain_onto ms (negroni_chain ms')"
  by (induction ms) simp_all

lemma chain_onto_append: "chain_onto (ms @ ms') k = chain_onto ms (chain_onto ms' k)"
  by (induction ms) simp_all

lemma Wrap_last: "Wrap h r (\<lambda>r. Pair Returned) = h r"
  by (rule ext) (simp add: Wrap_def split: prod.splits outcome.splits)

lemma SetupGlobalMiddleware_chain:
  "SetupGlobalMiddleware ext g cfg handler =
     chain_onto (map (gate_handler ext g cfg) (used_gates cfg)) (final_handler ext cfg handler)"
  by (simp add: SetupGlobalMiddleware_def negroni_chain_append Wrap_last)

lemma used_gates_last: "used_gates cfg = butlast (used_gates cfg) @ [Recovery]"
  by (simp add: used_gates_def butlast_append)

lemma Recovery_not_before: "Recovery \<notin> set (butlast (used_gates cfg))"
  by (simp add: used_gates_def butlast_append)

lemma used_gates_without_auth:
  "\<not> JWTAuthEnabled cfg \<Longrightarrow> JWTAuthRequireGroupClaim cfg \<noteq> [] \<Longrightarrow>
   used_gates cfg = gates_before_auth cfg @ [RequireGroupClaim, Static, Recovery]"
  by (simp add: used_gates_def gates_before_auth_def)

lemma statsd_passes_context: "passes_context cfg statsdMiddleware_ServeHTTP"
  by (simp add: passes_context_def statsdMiddleware_ServeHTTP_def)

lemma prometheus_passes_context: "passes_context cfg (prometheusMiddleware_ServeHTTP ext g)"
  by (simp add: passes_context_def prometheusMiddleware_ServeHTTP_def)

lemma chain_onto_cong:
  assumes "\<forall>m \<in> set ms. passes_context cfg m"
    and "\<forall>r st. unauthenticated cfg r \<longrightarrow> k r st = k' r st"
    and "unauthenticated cfg r"
  shows "chain_onto ms k r st = chain_onto ms k' r st"
  using assms
proof (induction ms arbitrary: r st)
  case Nil
  then show ?case by simp
next
  case (Cons m ms)
  have agree: "\<forall>r' st'. unauthenticated cfg r' \<longrightarrow> chain_onto ms k r' st' = chain_onto ms k' r' st'"
    using Cons by simp
  have "passes_context cfg m"
    using Cons.prems by simp
  then have "m r (chain_onto ms k) st = m r (chain_onto ms k') st"
    using agree Cons.prems(3) unfolding passes_context_def by blast
  then show ?case by simp
qed

lemma front_passes_context:
  assumes "passes_context cfg (gzip_Gzip ext)"
    and "passes_context cfg (negronilogrus_Middleware ext)"
    and "passes_context cfg (negroninewrelic_Newrelic ext)"
    and "passes_context cfg (cors_New ext)"
  shows "\<forall>m \<in> set (map (gate_handler ext g cfg) (gates_before_auth cfg)). passes_context cfg m"
  using assms statsd_passes_context [of cfg] prometheus_passes_context [of cfg ext g]
  by (auto simp: gates_before_auth_def)

subsection \<open>The sample deployment\<close>

lemmas sample_defs = sample_config_def sample_externals_def sample_global_def get_request_def
  request_with_token_def
  new_writer_def new_state_def pass_on_def ok_handler_def panicking_handler_def admin_token_def
  sample_Parse_def sample_url_Parse_def

lemma sample_config_fields:
  "JWTAuthNoTokenStatusCode sample_config = 401"
  "JWTAuthNoTokenRedirectURL sample_config = ''https://login''"
  "JWTAuthSigningMethod sample_config = ''HS256''"
  "JWTAuthSecret sample_config = ''secret''"
  "JWTAuthCookieTokenName sample_config = ''access_token''"
  "JWTAuthUserProperty sample_config = ''flagr_user_property''"
  "JWTAuthRequireGroupClaim sample_config = []"
  "WebPrefix sample_config = []"
  by (simp_all add: sample_config_def)

lemma sample_externals_fields:
  "jwt_Parse sample_externals = sample_Parse"
  "promhttp_Handler sample_externals = ok_handler"
  "gzip_Gzip sample_externals = pass_on"
  "negronilogrus_Middleware sample_externals = pass_on"
  "negroninewrelic_Newrelic sample_externals = pass_on"
  "cors_New sample_externals = pass_on"
  "negroni_Static sample_externals = (\<lambda>prefix. pass_on)"
  "pprof_New sample_externals = (\<lambda>h. h)"
  "http_StripPrefix sample_externals = (\<lambda>prefix h. h)"
  "url_Parse sample_externals = sample_url_Parse"
  "path_Clean sample_externals = (\<lambda>p. p)"
  "hexEscapeNonASCII sample_externals = (\<lambda>s. s)"
  "htmlEscape sample_externals = (\<lambda>s. s)"
  "http_StatusText sample_externals = (\<lambda>code. if code = 307 then ''Temporary Redirect'' else [])"
  by (simp_all add: sample_externals_def)

lemma Itoa_samples: "Itoa 401 = ''401''" "Itoa 200 = ''200''" "Itoa 0 = ''0''"
  by (simp_all add: Itoa_def digits.simps digit_def)

lemma sample_whitelist_iff:
  "whitelist sample_config (setupJWTAuthMiddleware sample_externals sample_config) r \<longleftrightarrow>
     URL_Path r = ''/metrics'' \<or> prefix ''/public'' (URL_Path r)"
  by (simp add: whitelist_iff effective_path_eq setup_fields sample_config_def)

lemma sample_whitelisted:
  "whitelist sample_config (setupJWTAuthMiddleware sample_externals sample_config)
     (get_request ''/public/health'')"
  by (simp add: whitelist_def effective_path_def setup_fields sample_config_def get_request_def
      HasPrefix_def StatusUnauthorized_def)

lemma sample_not_listed:
  "\<not> whitelist sample_config (setupJWTAuthMiddleware sample_externals sample_config)
       (get_request ''/api/v1/flags'')"
  by (simp add: whitelist_def effective_path_def setup_fields sample_config_def get_request_def
      HasPrefix_def StatusUnauthorized_def)

lemma sample_not_whitelisted:
  "\<not> whitelist sample_config (setupJWTAuthMiddleware sample_externals sample_config)
       ((get_request ''/api/v1/flags'')\<lparr>Cookie := ck, AuthHeaderToken := ah\<rparr>)"
  by (simp add: whitelist_def effective_path_def setup_fields sample_config_def get_request_def
      HasPrefix_def StatusUnauthorized_def)

lemma sample_no_token:
  "CheckJWT sample_externals (JWTMiddleware (setupJWTAuthMiddleware sample_externals sample_config))
      (get_request ''/api/v1/flags'') new_state
   = (Some ''Required authorization token not found'', get_request ''/api/v1/flags'',
      new_state\<lparr>rw := jwtErrorHandler sample_externals sample_config (rw new_state) (get_request ''/api/v1/flags'')
           ''Required authorization token not found''\<rparr>)"
proof -
  have m: "Method (get_request ''/api/v1/flags'') \<noteq> ''OPTIONS''"
    by (simp add: get_request_def)
  have e: "Extractor (JWTMiddleware (setupJWTAuthMiddleware sample_externals sample_config))
      (get_request ''/api/v1/flags'') = Inr []"
    by (simp add: Extractor_setup get_request_def)
  show ?thesis
    using m by (simp add: CheckJWT_def e)
qed

lemma sample_rejected:
  "auth_ServeHTTP sample_externals sample_config
      (setupJWTAuthMiddleware sample_externals sample_config)
      (get_request ''/api/v1/flags'') next new_state
   = (Returned, new_state\<lparr>rw := jwtErrorHandler sample_externals sample_config (rw new_state)
        (get_request ''/api/v1/flags'') ''Required authorization token not found''\<rparr>)"
  by (simp add: auth_ServeHTTP_def HandlerWithNext_def sample_no_token sample_not_listed)

lemma sample_rejected_status:
  "rw_status (jwtErrorHandler sample_externals sample_config w r reason) = 401"
  by (simp add: jwtErrorHandler_def http_Error_def sample_config_fields
      StatusTemporaryRedirect_def StatusUnauthorized_def)

lemma pass_on_passes_context: "passes_context cfg pass_on"
  by (simp add: passes_context_def pass_on_def)

subsection \<open>C1: the whitelist bypass of the JWT gate\<close>

text \<open>
  Claim C1, as the code has it. The effective path is the request path with \<open>WebPrefix\<close>
  stripped when it is a prefix. \<open>auth.whitelist\<close> holds exactly when the effective path
  equals an exact rule while \<open>JWTAuthNoTokenStatusCode\<close> is 401, or some non-empty prefix
  rule is a prefix of it; so with any other status the exact rules play no part. Exactly then
  \<open>auth.ServeHTTP\<close> marks the request as whitelisted and calls \<open>next\<close> without extracting or
  verifying a token. Every other request goes to the JWT middleware and is never marked: an
  OPTIONS request is passed to \<open>next\<close> as it is, also without extraction or verification;
  for every other method the token is extracted, an extraction error or an empty token is
  rejected, and a token is handed to \<open>jwt.Parse\<close> and the request passed to \<open>next\<close>, with the
  parsed token in its context, only when the token parses, has the configured algorithm and
  is valid.
\<close>

theorem AuthGate_bypass_iff_whitelisted:
  "effective_path cfg req =
     (if prefix (WebPrefix cfg) (URL_Path req) then drop (length (WebPrefix cfg)) (URL_Path req)
      else URL_Path req)
   \<and> whitelist cfg a req =
       ((JWTAuthNoTokenStatusCode cfg = 401 \<and> effective_path cfg req \<in> set (ExactWhitelistPaths a))
        \<or> (\<exists>p \<in> set (PrefixWhitelistPaths a). p \<noteq> [] \<and> prefix p (effective_path cfg req)))
   \<and> auth_ServeHTTP ext cfg a req next st =
       (if (JWTAuthNoTokenStatusCode cfg = 401 \<and> effective_path cfg req \<in> set (ExactWhitelistPaths a))
           \<or> (\<exists>p \<in> set (PrefixWhitelistPaths a). p \<noteq> [] \<and> prefix p (effective_path cfg req))
        then next (req\<lparr>ctx_whiteListed := Some True\<rparr>) st
        else if Method req = ''OPTIONS'' then next req st
        else case Extractor (JWTMiddleware a) req of
          Inl err \<Rightarrow> (Returned, st\<lparr>rw := ErrorHandler (JWTMiddleware a) (rw st) req err\<rparr>)
        | Inr tok \<Rightarrow>
            if tok = []
            then (Returned, st\<lparr>rw := ErrorHandler (JWTMiddleware a) (rw st) req
                    ''Required authorization token not found''\<rparr>)
            else case jwt_Parse ext tok (ValidationKeyGetter (JWTMiddleware a)) of
              Inl err \<Rightarrow> (Returned, st\<lparr>rw := ErrorHandler (JWTMiddleware a) (rw st) req err\<rparr>)
            | Inr parsedToken \<Rightarrow>
                if Alg (SigningMethod (JWTMiddleware a)) \<noteq> Header_alg parsedToken
                then (Returned, st\<lparr>rw := ErrorHandler (JWTMiddleware a) (rw st) req
                        (''Expected '' @ Alg (SigningMethod (JWTMiddleware a))
                         @ '' signing method but token specified '' @ Header_alg parsedToken)\<rparr>)
                else if \<not> Valid parsedToken
                then (Returned, st\<lparr>rw := ErrorHandler (JWTMiddleware a) (rw st) req
                        ''The token isn't valid''\<rparr>)
                else next (req\<lparr>ctx_values :=
                             (ctx_values req)(UserProperty (JWTMiddleware a) \<mapsto> JwtToken parsedToken)\<rparr>)
                       st)"
  using whitelist_iff [of cfg a req] effective_path_eq [of cfg req]
    auth_ServeHTTP_cases [of ext cfg a req "next" st]
  by simp

text \<open>
  On the sample deployment, \<open>/public/health\<close> falls under the prefix rule \<open>/public\<close> and is
  forwarded; a GET request for \<open>/api/v1/flags\<close> without token is rejected with status 401,
  and one with the cookie token \<open>good\<close> is forwarded.
\<close>

theorem AuthGate_bypass_witness:
  "effective_path sample_config (get_request ''/public/health'') = ''/public/health''
   \<and> whitelist sample_config (setupJWTAuthMiddleware sample_externals sample_config)
       (get_request ''/public/health'')
   \<and> auth_ServeHTTP sample_externals sample_config
       (setupJWTAuthMiddleware sample_externals sample_config)
       (get_request ''/public/health'') ok_handler new_state
     = (Returned, new_state\<lparr>rw := new_writer\<lparr>rw_status := 200\<rparr>\<rparr>)
   \<and> rw_status (rw (snd (auth_ServeHTTP sample_externals sample_config
       (setupJWTAuthMiddleware sample_externals sample_config)
       (get_request ''/api/v1/flags'') ok_handler new_state))) = 401
   \<and> auth_ServeHTTP sample_externals sample_config
       (setupJWTAuthMiddleware sample_externals sample_config)
       ((get_request ''/api/v1/flags'')\<lparr>Cookie := [''access_token'' \<mapsto> ''good'']\<rparr>)
       ok_handler new_state
     = (Returned, new_state\<lparr>rw := new_writer\<lparr>rw_status := 200\<rparr>\<rparr>)"
proof -
  let ?a = "setupJWTAuthMiddleware sample_externals sample_config"
  let ?p = "get_request ''/public/health''"
  let ?f = "get_request ''/api/v1/flags''"
  let ?c = "(get_request ''/api/v1/flags'')\<lparr>Cookie := [''access_token'' \<mapsto> ''good'']\<rparr>"
  have ex: "Extractor (JWTMiddleware ?a) ?f = Inr []" "Extractor (JWTMiddleware ?a) ?c = Inr ''good''"
    by (simp_all add: Extractor_setup sample_config_fields get_request_def)
  have m: "Method ?f \<noteq> ''OPTIONS''" "Method ?c \<noteq> ''OPTIONS''"
    by (simp_all add: get_request_def)
  have key: "SigningMethod (JWTMiddleware ?a) = SigningMethodHS256"
    by (simp add: setup_fields signing_setup_def sample_config_fields)
  have listed: "whitelist sample_config ?a ?p" "\<not> whitelist sample_config ?a ?f"
    "\<not> whitelist sample_config ?a ?c"
    by (simp_all add: sample_whitelist_iff get_request_def)
  note p = AuthGate_bypass_iff_whitelisted [of sample_config ?p ?a sample_externals ok_handler new_state]
  note f = AuthGate_bypass_iff_whitelisted [of sample_config ?f ?a sample_externals ok_handler new_state]
  note c = AuthGate_bypass_iff_whitelisted [of sample_config ?c ?a sample_externals ok_handler new_state]
  note p' = p [THEN conjunct2, THEN conjunct2, unfolded p [THEN conjunct2, THEN conjunct1, symmetric]]
  note f' = f [THEN conjunct2, THEN conjunct2, unfolded f [THEN conjunct2, THEN conjunct1, symmetric]]
  note c' = c [THEN conjunct2, THEN conjunct2, unfolded c [THEN conjunct2, THEN conjunct1, symmetric]]
  have path: "effective_path sample_config ?p = ''/public/health''"
    using p [THEN conjunct1] by (simp add: sample_config_fields get_request_def)
  have "auth_ServeHTTP sample_externals sample_config ?a ?p ok_handler new_state
      = ok_handler (?p\<lparr>ctx_whiteListed := Some True\<rparr>) new_state"
    using listed(1) by (simp add: p')
  then have one: "auth_ServeHTTP sample_externals sample_config ?a ?p ok_handler new_state
      = (Returned, new_state\<lparr>rw := new_writer\<lparr>rw_status := 200\<rparr>\<rparr>)"
    by (simp add: ok_handler_def new_state_def)
  have "auth_ServeHTTP sample_externals sample_config ?a ?f ok_handler new_state
      = (Returned, new_state\<lparr>rw := jwtErrorHandler sample_externals sample_config (rw new_state) ?f
           ''Required authorization token not found''\<rparr>)"
    using listed(2) by (simp add: f' ex m)
  then have two: "rw_status (rw (snd (auth_ServeHTTP sample_externals sample_config ?a ?f
      ok_handler new_state))) = 401"
    by (simp add: sample_rejected_status)
  have "auth_ServeHTTP sample_externals sample_config ?a ?c ok_handler new_state
      = ok_handler (?c\<lparr>ctx_values := (ctx_values ?c)(UserProperty (JWTMiddleware ?a)
          \<mapsto> JwtToken admin_token)\<rparr>) new_state"
    using listed(3)
    by (simp add: c' ex m key sample_externals_fields sample_Parse_def admin_token_def)
  then have three: "auth_ServeHTTP sample_externals sample_config ?a ?c ok_handler new_state
      = (Returned, new_state\<lparr>rw := new_writer\<lparr>rw_status := 200\<rparr>\<rparr>)"
    by (simp add: ok_handler_def new_state_def)
  from path listed(1) one two three show ?thesis by simp
qed

text \<open>
  The claim as stated, that the gate forwards without token extraction or verification only
  on a whitelist match, fails for an OPTIONS request: \<open>/api/v1/flags\<close> matches no rule and the
  request carries no token at all, yet it reaches the next handler.
\<close>

theorem OPTIONS_request_is_forwarded_unchecked:
  "\<not> whitelist sample_config (setupJWTAuthMiddleware sample_externals sample_config)
       ((get_request ''/api/v1/flags'')\<lparr>Method := ''OPTIONS''\<rparr>)
   \<and> Extractor (JWTMiddleware (setupJWTAuthMiddleware sample_externals sample_config))
       ((get_request ''/api/v1/flags'')\<lparr>Method := ''OPTIONS''\<rparr>) = Inr []
   \<and> auth_ServeHTTP sample_externals sample_config
       (setupJWTAuthMiddleware sample_externals sample_config)
       ((get_request ''/api/v1/flags'')\<lparr>Method := ''OPTIONS''\<rparr>) ok_handler new_state
     = (Returned, new_state\<lparr>rw := new_writer\<lparr>rw_status := 200\<rparr>\<rparr>)"
proof -
  let ?r = "(get_request ''/api/v1/flags'')\<lparr>Method := ''OPTIONS''\<rparr>"
  have w: "\<not> whitelist sample_config
      (setupJWTAuthMiddleware sample_externals sample_config) ?r"
    by (simp add: sample_whitelist_iff get_request_def)
  have e: "Extractor (JWTMiddleware (setupJWTAuthMiddleware sample_externals sample_config)) ?r
      = Inr []"
    by (simp add: Extractor_setup get_request_def)
  have m: "Method ?r = ''OPTIONS''"
    by simp
  have "auth_ServeHTTP sample_externals sample_config
       (setupJWTAuthMiddleware sample_externals sample_config) ?r ok_handler new_state
     = ok_handler ?r new_state"
    using w m by (simp add: auth_ServeHTTP_cases)
  then show ?thesis
    using w e by (simp add: ok_handler_def new_state_def)
qed

subsection \<open>C2: the signing method that is neither HS256 nor RS256\<close>

text \<open>
  Claim C2, as the code has it. For every signing-method tag other than \<open>HS256\<close> and
  \<open>RS256\<close>, \<open>setupJWTAuthMiddleware\<close> selects HS256 with the empty byte string as the
  validation key, whatever \<open>JWTAuthSecret\<close> is, and with no key error: the \<open>default\<close> branch
  of the switch writes \<open>[]byte("")\<close>, where the \<open>HS256\<close> branch writes the secret.
\<close>

theorem unrecognised_method_uses_empty_key:
  "JWTAuthSigningMethod cfg \<noteq> ''HS256'' \<Longrightarrow> JWTAuthSigningMethod cfg \<noteq> ''RS256'' \<Longrightarrow>
   SigningMethod (JWTMiddleware (setupJWTAuthMiddleware ext cfg)) = SigningMethodHS256
   \<and> ValidationKeyGetter (JWTMiddleware (setupJWTAuthMiddleware ext cfg)) = (Bytes [], None)"
  by (simp add: setup_fields signing_setup_def)

theorem unrecognised_method_witness:
  "SigningMethod (JWTMiddleware (setupJWTAuthMiddleware sample_externals
       (sample_config\<lparr>JWTAuthSigningMethod := ''ES256''\<rparr>))) = SigningMethodHS256
   \<and> ValidationKeyGetter (JWTMiddleware (setupJWTAuthMiddleware sample_externals
       (sample_config\<lparr>JWTAuthSigningMethod := ''ES256''\<rparr>))) = (Bytes [], None)"
  using unrecognised_method_uses_empty_key
    [of "sample_config\<lparr>JWTAuthSigningMethod := ''ES256''\<rparr>" sample_externals]
  by (simp add: sample_config_def)

text \<open>
  The claim as stated, that the fallback key is the raw bytes of the configured secret, fails
  for the tag \<open>ES256\<close> and the secret \<open>secret\<close>.
\<close>

theorem unrecognised_method_key_is_not_the_secret:
  "JWTAuthSigningMethod (sample_config\<lparr>JWTAuthSigningMethod := ''ES256''\<rparr>) \<noteq> ''HS256''
   \<and> JWTAuthSigningMethod (sample_config\<lparr>JWTAuthSigningMethod := ''ES256''\<rparr>) \<noteq> ''RS256''
   \<and> JWTAuthSecret (sample_config\<lparr>JWTAuthSigningMethod := ''ES256''\<rparr>) = ''secret''
   \<and> ValidationKeyGetter (JWTMiddleware (setupJWTAuthMiddleware sample_externals
       (sample_config\<lparr>JWTAuthSigningMethod := ''ES256''\<rparr>)))
     \<noteq> (Bytes (JWTAuthSecret (sample_config\<lparr>JWTAuthSigningMethod := ''ES256''\<rparr>)), None)"
  by (simp add: setup_fields signing_setup_def sample_config_def)

subsection \<open>C3: the response to a rejection\<close>

text \<open>
  Claim C3, as the code has it. \<open>jwtErrorHandler\<close> redirects exactly when
  \<open>JWTAuthNoTokenStatusCode\<close> is 307: it then calls \<open>http.Redirect\<close> with
  \<open>JWTAuthNoTokenRedirectURL\<close> and status 307, which writes that status and sets Location to
  the escaped target, the configured URL itself when it does not parse or has a scheme or a
  host, and the URL resolved against the request path otherwise. For every other value, the
  other redirect statuses among them, it answers 401 with the header
  \<open>WWW-Authenticate: Bearer realm="<URL>"\<close> and the body \<open>Not authorized\<close>, and sets no
  Location.
\<close>

theorem ErrorResponder_redirects_only_on_307:
  "(JWTAuthNoTokenStatusCode cfg = 307 \<longrightarrow>
      jwtErrorHandler ext cfg w r err = http_Redirect ext w r (JWTAuthNoTokenRedirectURL cfg) 307
      \<and> rw_status (jwtErrorHandler ext cfg w r err) = 307
      \<and> Header_Get (rw_header (jwtErrorHandler ext cfg w r err)) ''Location''
          = hexEscapeNonASCII ext (redirect_url ext r (JWTAuthNoTokenRedirectURL cfg))
      \<and> ((case url_Parse ext (JWTAuthNoTokenRedirectURL cfg) of
             None \<Rightarrow> True
           | Some (scheme, host) \<Rightarrow> scheme \<noteq> [] \<or> host \<noteq> [])
          \<longrightarrow> redirect_url ext r (JWTAuthNoTokenRedirectURL cfg) = JWTAuthNoTokenRedirectURL cfg))
   \<and> (JWTAuthNoTokenStatusCode cfg \<noteq> 307 \<longrightarrow>
      rw_status (jwtErrorHandler ext cfg w r err) = 401
      \<and> Header_Get (rw_header (jwtErrorHandler ext cfg w r err)) ''WWW-Authenticate''
          = ''Bearer realm=\"'' @ JWTAuthNoTokenRedirectURL cfg @ ''\"''
      \<and> Header_Get (rw_header (jwtErrorHandler ext cfg w r err)) ''Location''
          = Header_Get (rw_header w) ''Location''
      \<and> rw_body (jwtErrorHandler ext cfg w r err) = rw_body w @ ''Not authorized'' @ [CHR 0x0A])"
proof -
  have loc: "Header_Get (rw_header (http_Redirect ext w r url code)) ''Location''
      = hexEscapeNonASCII ext (redirect_url ext r url)" for url code
    by (simp add: http_Redirect_def Let_def Header_Get_Set)
  have st: "rw_status (http_Redirect ext w r url code) = code" for url code
    by (simp add: http_Redirect_def Let_def)
  have abs: "redirect_url ext r url = url"
    if "case url_Parse ext url of None \<Rightarrow> True | Some (scheme, host) \<Rightarrow> scheme \<noteq> [] \<or> host \<noteq> []"
    for url
    using that by (auto simp: redirect_url_def split: option.splits)
  have redirect: "jwtErrorHandler ext cfg w r err
      = http_Redirect ext w r (JWTAuthNoTokenRedirectURL cfg) 307"
    if "JWTAuthNoTokenStatusCode cfg = 307"
    using that by (simp add: jwtErrorHandler_def StatusTemporaryRedirect_def)
  have other: "rw_status (jwtErrorHandler ext cfg w r err) = 401
      \<and> Header_Get (rw_header (jwtErrorHandler ext cfg w r err)) ''WWW-Authenticate''
          = ''Bearer realm=\"'' @ JWTAuthNoTokenRedirectURL cfg @ ''\"''
      \<and> Header_Get (rw_header (jwtErrorHandler ext cfg w r err)) ''Location''
          = Header_Get (rw_header w) ''Location''
      \<and> rw_body (jwtErrorHandler ext cfg w r err) = rw_body w @ ''Not authorized'' @ [CHR 0x0A]"
    if "JWTAuthNoTokenStatusCode cfg \<noteq> 307"
    using that
    by (simp add: jwtErrorHandler_def http_Error_def Header_Get_Set Header_Get_Del
        StatusTemporaryRedirect_def StatusUnauthorized_def)
  show ?thesis
    using redirect other abs [of "JWTAuthNoTokenRedirectURL cfg"]
      loc [of "JWTAuthNoTokenRedirectURL cfg" 307] st [of "JWTAuthNoTokenRedirectURL cfg" 307]
    by (cases "JWTAuthNoTokenStatusCode cfg = 307") simp_all
qed

text \<open>
  On the sample deployment with status 307: the target \<open>https://login\<close> is sent as it is, and
  the target \<open>login\<close>, which has neither scheme nor host, is sent as \<open>/api/v1/login\<close> for a
  request for \<open>/api/v1/flags\<close>. With status 401 the challenge header and the body are
  written.
\<close>

theorem ErrorResponder_witness:
  "rw_status (jwtErrorHandler sample_externals (sample_config\<lparr>JWTAuthNoTokenStatusCode := 307\<rparr>)
      new_writer (get_request ''/api/v1/flags'') ''Required authorization token not found'') = 307
   \<and> Header_Get (rw_header (jwtErrorHandler sample_externals
        (sample_config\<lparr>JWTAuthNoTokenStatusCode := 307\<rparr>)
        new_writer (get_request ''/api/v1/flags'') ''Required authorization token not found''))
        ''Location'' = ''https://login''
   \<and> Header_Get (rw_header (jwtErrorHandler sample_externals
        (sample_config\<lparr>JWTAuthNoTokenStatusCode := 307, JWTAuthNoTokenRedirectURL := ''login''\<rparr>)
        new_writer (get_request ''/api/v1/flags'') ''Required authorization token not found''))
        ''Location'' = ''/api/v1/login''
   \<and> rw_status (jwtErrorHandler sample_externals sample_config new_writer
        (get_request ''/api/v1/flags'') ''Required authorization token not found'') = 401
   \<and> Header_Get (rw_header (jwtErrorHandler sample_externals sample_config new_writer
        (get_request ''/api/v1/flags'') ''Required authorization token not found''))
        ''WWW-Authenticate'' = ''Bearer realm=\"https://login\"''
   \<and> rw_body (jwtErrorHandler sample_externals sample_config new_writer
        (get_request ''/api/v1/flags'') ''Required authorization token not found'')
      = ''Not authorized'' @ [CHR 0x0A]"
proof -
  let ?r = "get_request ''/api/v1/flags''"
  let ?e = "''Required authorization token not found''"
  let ?abs = "sample_config\<lparr>JWTAuthNoTokenStatusCode := 307\<rparr>"
  let ?rel = "sample_config\<lparr>JWTAuthNoTokenStatusCode := 307, JWTAuthNoTokenRedirectURL := ''login''\<rparr>"
  have cfg: "JWTAuthNoTokenStatusCode ?abs = 307" "JWTAuthNoTokenStatusCode ?rel = 307"
    "JWTAuthNoTokenStatusCode sample_config \<noteq> 307"
    "JWTAuthNoTokenRedirectURL ?abs = ''https://login''" "JWTAuthNoTokenRedirectURL ?rel = ''login''"
    by (simp_all add: sample_config_fields)
  have parse: "case url_Parse sample_externals (JWTAuthNoTokenRedirectURL ?abs) of
      None \<Rightarrow> True | Some (scheme, host) \<Rightarrow> scheme \<noteq> [] \<or> host \<noteq> []"
    by (simp add: sample_config_fields sample_externals_fields sample_url_Parse_def)
  have rel: "redirect_url sample_externals ?r ''login'' = ''/api/v1/login''"
    by (simp add: redirect_url_def sample_externals_fields sample_url_Parse_def Let_def
        get_request_def path_Split_dir_def HasSuffix_def)
  note i1 = ErrorResponder_redirects_only_on_307 [of ?abs sample_externals new_writer ?r ?e]
  note i2 = ErrorResponder_redirects_only_on_307 [of ?rel sample_externals new_writer ?r ?e]
  note i3 = ErrorResponder_redirects_only_on_307 [of sample_config sample_externals new_writer ?r ?e]
  from i1 cfg(1) have a1: "rw_status (jwtErrorHandler sample_externals ?abs new_writer ?r ?e) = 307"
    by blast
  from i1 cfg(1) have "Header_Get (rw_header (jwtErrorHandler sample_externals ?abs new_writer ?r ?e))
      ''Location'' = hexEscapeNonASCII sample_externals
        (redirect_url sample_externals ?r (JWTAuthNoTokenRedirectURL ?abs))"
    by blast
  moreover from i1 cfg(1) parse
  have "redirect_url sample_externals ?r (JWTAuthNoTokenRedirectURL ?abs)
      = JWTAuthNoTokenRedirectURL ?abs"
    by blast
  ultimately have a2: "Header_Get (rw_header (jwtErrorHandler sample_externals ?abs new_writer ?r ?e))
      ''Location'' = ''https://login''"
    by (simp add: cfg sample_externals_fields)
  from i2 cfg(2) have "Header_Get (rw_header (jwtErrorHandler sample_externals ?rel new_writer ?r ?e))
      ''Location'' = hexEscapeNonASCII sample_externals
        (redirect_url sample_externals ?r (JWTAuthNoTokenRedirectURL ?rel))"
    by blast
  then have b: "Header_Get (rw_header (jwtErrorHandler sample_externals ?rel new_writer ?r ?e))
      ''Location'' = ''/api/v1/login''"
    by (simp add: cfg rel sample_externals_fields)
  from i3 cfg(3) have "rw_status (jwtErrorHandler sample_externals sample_config new_writer ?r ?e) = 401
      \<and> Header_Get (rw_header (jwtErrorHandler sample_externals sample_config new_writer ?r ?e))
            ''WWW-Authenticate''
          = ''Bearer realm=\"'' @ JWTAuthNoTokenRedirectURL sample_config @ ''\"''
      \<and> rw_body (jwtErrorHandler sample_externals sample_config new_writer ?r ?e)
          = rw_body new_writer @ ''Not authorized'' @ [CHR 0x0A]"
    by blast
  then have c: "rw_status (jwtErrorHandler sample_externals sample_config new_writer ?r ?e) = 401
      \<and> Header_Get (rw_header (jwtErrorHandler sample_externals sample_config new_writer ?r ?e))
            ''WWW-Authenticate'' = ''Bearer realm=\"https://login\"''
      \<and> rw_body (jwtErrorHandler sample_externals sample_config new_writer ?r ?e)
          = ''Not authorized'' @ [CHR 0x0A]"
    by (simp add: sample_config_fields new_writer_def)
  from a1 a2 b c show ?thesis by simp
qed

text \<open>
  The claim as stated, that a configured redirect status is answered with a redirect of that
  status, fails for 302: the answer is 401 and carries no Location.
\<close>

theorem status_302_is_answered_with_401:
  "rw_status (jwtErrorHandler sample_externals (sample_config\<lparr>JWTAuthNoTokenStatusCode := 302\<rparr>)
      new_writer (get_request ''/api/v1/flags'') ''Required authorization token not found'') = 401
   \<and> Header_Get (rw_header (jwtErrorHandler sample_externals
        (sample_config\<lparr>JWTAuthNoTokenStatusCode := 302\<rparr>)
        new_writer (get_request ''/api/v1/flags'') ''Required authorization token not found''))
        ''Location'' = []"
  by (simp add: jwtErrorHandler_def http_Error_def sample_config_def new_writer_def
      Header_Set_def StatusTemporaryRedirect_def StatusUnauthorized_def)

subsection \<open>C4: the place of the recovery gate\<close>

text \<open>
  Claim C4, as the code has it. \<open>SetupGlobalMiddleware\<close> adds the recovery gate last, after
  the static-file gate: it is the innermost gate of the chain, it occurs nowhere else, and
  the chain is the other gates in front of the recovered application handler. A panic of
  the application handler (with prefix stripping and pprof around it) is caught there, so
  what the recovery gate returns never panics; the answer has status 500 and is not a
  generic one: its body is \<open>PANIC: \<close>, the panic value and the stack trace. The gates in
  front of the recovery gate are not under its protection.
\<close>

theorem Recovery_is_innermost:
  "last (used_gates cfg) = Recovery
   \<and> Recovery \<notin> set (butlast (used_gates cfg))
   \<and> SetupGlobalMiddleware ext g cfg handler =
       chain_onto (map (gate_handler ext g cfg) (butlast (used_gates cfg)))
         (\<lambda>r st. Recovery_ServeHTTP r (final_handler ext cfg handler) st)
   \<and> Recovery_ServeHTTP r (final_handler ext cfg handler) st =
       (case final_handler ext cfg handler r st of
          (Panicked val stack, st') \<Rightarrow>
            (Returned, st'\<lparr>rw := FormatPanicError ((rw st')\<lparr>rw_status := 500\<rparr>) val stack\<rparr>)
        | (Returned, st') \<Rightarrow> (Returned, st'))
   \<and> fst (Recovery_ServeHTTP r (final_handler ext cfg handler) st) = Returned
   \<and> (final_handler ext cfg handler r st = (Panicked val stack, st') \<longrightarrow>
        rw_status (rw (snd (Recovery_ServeHTTP r (final_handler ext cfg handler) st))) = 500
        \<and> rw_body (rw (snd (Recovery_ServeHTTP r (final_handler ext cfg handler) st)))
            = rw_body (rw st') @ ''PANIC: '' @ val @ [CHR 0x0A] @ stack
        \<and> Header_Get (rw_header (rw (snd (Recovery_ServeHTTP r (final_handler ext cfg handler) st))))
              ''Content-Type''
            = (if Header_Get (rw_header (rw st')) ''Content-Type'' = []
               then ''text/plain; charset=utf-8''
               else Header_Get (rw_header (rw st')) ''Content-Type''))"
proof -
  have l: "last (used_gates cfg) = Recovery"
    by (simp add: used_gates_def)
  have "map (gate_handler ext g cfg) (used_gates cfg)
      = map (gate_handler ext g cfg) (butlast (used_gates cfg)) @ [Recovery_ServeHTTP]"
    by (subst used_gates_last) simp
  then have c: "SetupGlobalMiddleware ext g cfg handler =
       chain_onto (map (gate_handler ext g cfg) (butlast (used_gates cfg)))
         (\<lambda>r st. Recovery_ServeHTTP r (final_handler ext cfg handler) st)"
    by (simp add: SetupGlobalMiddleware_chain chain_onto_append)
  have r: "Recovery_ServeHTTP r (final_handler ext cfg handler) st =
       (case final_handler ext cfg handler r st of
          (Panicked val stack, st') \<Rightarrow>
            (Returned, st'\<lparr>rw := FormatPanicError ((rw st')\<lparr>rw_status := 500\<rparr>) val stack\<rparr>)
        | (Returned, st') \<Rightarrow> (Returned, st'))"
    by (simp add: Recovery_ServeHTTP_def StatusInternalServerError_def
        split: prod.splits outcome.splits)
  have f: "fst (Recovery_ServeHTTP r (final_handler ext cfg handler) st) = Returned"
    by (simp add: Recovery_ServeHTTP_def split: prod.splits outcome.splits)
  have p: "rw_status (rw (snd (Recovery_ServeHTTP r (final_handler ext cfg handler) st))) = 500
        \<and> rw_body (rw (snd (Recovery_ServeHTTP r (final_handler ext cfg handler) st)))
            = rw_body (rw st') @ ''PANIC: '' @ val @ [CHR 0x0A] @ stack
        \<and> Header_Get (rw_header (rw (snd (Recovery_ServeHTTP r (final_handler ext cfg handler) st))))
              ''Content-Type''
            = (if Header_Get (rw_header (rw st')) ''Content-Type'' = []
               then ''text/plain; charset=utf-8''
               else Header_Get (rw_header (rw st')) ''Content-Type'')"
    if "final_handler ext cfg handler r st = (Panicked val stack, st')"
    using that
    by (simp add: Recovery_ServeHTTP_def FormatPanicError_def StatusInternalServerError_def
        Header_Get_Set)
  from l Recovery_not_before c r f p show ?thesis by blast
qed

text \<open>
  On the sample deployment a whitelisted request whose application handler panics is
  answered with status 500 and the panic value and stack trace in the body.
\<close>

theorem Recovery_is_innermost_witness:
  "last (used_gates sample_config) = Recovery
   \<and> butlast (used_gates sample_config) = [JWTAuth, Static]
   \<and> SetupGlobalMiddleware sample_externals sample_global sample_config panicking_handler
        (get_request ''/public/health'') new_state
      = (Returned,
         new_state\<lparr>rw :=
           \<lparr>rw_status = 500,
            rw_header = [(''Content-Type'', ''text/plain; charset=utf-8'')],
            rw_body = ''PANIC: dial tcp 10.0.0.5:5432: connection refused'' @ [CHR 0x0A]
                      @ ''goroutine 7 [running]:''\<rparr>\<rparr>)"
proof -
  let ?r = "get_request ''/public/health''"
  have g: "butlast (used_gates sample_config) = [JWTAuth, Static]"
    by (simp add: used_gates_def sample_config_def)
  have f: "final_handler sample_externals sample_config panicking_handler = panicking_handler"
    by (simp add: final_handler_def sample_config_def)
  note inst = Recovery_is_innermost [where cfg = sample_config and ext = sample_externals
      and g = sample_global and handler = panicking_handler
      and r = "?r\<lparr>ctx_whiteListed := Some True\<rparr>" and st = new_state]
  have rec: "Recovery_ServeHTTP (?r\<lparr>ctx_whiteListed := Some True\<rparr>) panicking_handler new_state
      = (Returned,
         new_state\<lparr>rw :=
           \<lparr>rw_status = 500,
            rw_header = [(''Content-Type'', ''text/plain; charset=utf-8'')],
            rw_body = ''PANIC: dial tcp 10.0.0.5:5432: connection refused'' @ [CHR 0x0A]
                      @ ''goroutine 7 [running]:''\<rparr>\<rparr>)"
    using inst
    by (simp add: f panicking_handler_def new_state_def new_writer_def FormatPanicError_def
        Header_Set_def)
  have "SetupGlobalMiddleware sample_externals sample_global sample_config panicking_handler
        ?r new_state
      = (Returned,
         new_state\<lparr>rw :=
           \<lparr>rw_status = 500,
            rw_header = [(''Content-Type'', ''text/plain; charset=utf-8'')],
            rw_body = ''PANIC: dial tcp 10.0.0.5:5432: connection refused'' @ [CHR 0x0A]
                      @ ''goroutine 7 [running]:''\<rparr>\<rparr>)"
    using inst sample_whitelisted
    by (simp add: g f rec auth_ServeHTTP_def sample_externals_fields pass_on_def)
  with inst g show ?thesis by simp
qed

text \<open>
  The claim as stated fails in both respects. The recovery gate is not outermost: with the
  Prometheus gate enabled that gate is the first of the chain, and when the scrape handler it
  runs panics on a request for the scrape path, the panic leaves the chain. And the answer
  to a panic that is recovered is not generic: the body names the panic value.
\<close>

theorem panic_in_telemetry_gate_is_not_recovered:
  "hd (used_gates (sample_config\<lparr>PrometheusEnabled := True\<rparr>)) = Prometheus
   \<and> URL_EscapedPath (get_request ''/metrics'') = Prometheus_ScrapePath sample_global
   \<and> SetupGlobalMiddleware (sample_externals\<lparr>promhttp_Handler := panicking_handler\<rparr>) sample_global
        (sample_config\<lparr>PrometheusEnabled := True\<rparr>) ok_handler (get_request ''/metrics'') new_state
      = (Panicked ''dial tcp 10.0.0.5:5432: connection refused'' ''goroutine 7 [running]:'',
         new_state)
   \<and> rw_body (rw (snd (Recovery_ServeHTTP (get_request ''/public/health'') panicking_handler
        new_state)))
      = ''PANIC: dial tcp 10.0.0.5:5432: connection refused'' @ [CHR 0x0A]
        @ ''goroutine 7 [running]:''"
proof -
  have a: "hd (used_gates (sample_config\<lparr>PrometheusEnabled := True\<rparr>)) = Prometheus
   \<and> URL_EscapedPath (get_request ''/metrics'') = Prometheus_ScrapePath sample_global
   \<and> SetupGlobalMiddleware (sample_externals\<lparr>promhttp_Handler := panicking_handler\<rparr>) sample_global
        (sample_config\<lparr>PrometheusEnabled := True\<rparr>) ok_handler (get_request ''/metrics'') new_state
      = (Panicked ''dial tcp 10.0.0.5:5432: connection refused'' ''goroutine 7 [running]:'',
         new_state)"
    by (simp add: SetupGlobalMiddleware_def used_gates_def sample_config_def
        prometheusMiddleware_ServeHTTP_def sample_global_def get_request_def panicking_handler_def)
  have b: "rw_body (rw (snd (Recovery_ServeHTTP (get_request ''/public/health'') panicking_handler
        new_state)))
      = ''PANIC: dial tcp 10.0.0.5:5432: connection refused'' @ [CHR 0x0A]
        @ ''goroutine 7 [running]:''"
    by (simp add: Recovery_ServeHTTP_def panicking_handler_def FormatPanicError_def
        new_state_def new_writer_def)
  from a b show ?thesis by simp
qed

subsection \<open>C5: the cookie before the Authorization header\<close>

text \<open>
  Claim C5, as the code has it. The extractor that \<open>setupJWTAuthMiddleware\<close> configures
  yields the value of the cookie \<open>JWTAuthCookieTokenName\<close> whenever the request has that cookie
  with a non-empty value, and the result of the Authorization header only when the cookie is
  missing or empty. For a request that is not whitelisted and not an OPTIONS request, whose
  cookie and header both carry a token, the token handed to \<open>jwt.Parse\<close> is the cookie's, and
  the request is forwarded or rejected on that token alone. An OPTIONS request that is not
  whitelisted is forwarded without any token being extracted or verified.
\<close>

theorem cookie_token_takes_precedence:
  "Extractor (JWTMiddleware (setupJWTAuthMiddleware ext cfg)) r =
     (case Cookie r (JWTAuthCookieTokenName cfg) of
        None \<Rightarrow> AuthHeaderToken r
      | Some c \<Rightarrow> if c \<noteq> [] then Inr c else AuthHeaderToken r)
   \<and> (Cookie r (JWTAuthCookieTokenName cfg) = Some c \<and> c \<noteq> []
        \<and> AuthHeaderToken r = Inr h \<and> h \<noteq> []
        \<and> \<not> whitelist cfg (setupJWTAuthMiddleware ext cfg) r \<and> Method r \<noteq> ''OPTIONS'' \<longrightarrow>
      Extractor (JWTMiddleware (setupJWTAuthMiddleware ext cfg)) r = Inr c
      \<and> CheckJWT ext (JWTMiddleware (setupJWTAuthMiddleware ext cfg)) r st
          = parse_and_store ext (JWTMiddleware (setupJWTAuthMiddleware ext cfg)) r st c
      \<and> auth_ServeHTTP ext cfg (setupJWTAuthMiddleware ext cfg) r next st
          = (case jwt_Parse ext c
                    (ValidationKeyGetter (JWTMiddleware (setupJWTAuthMiddleware ext cfg))) of
               Inl err \<Rightarrow> (Returned, st\<lparr>rw := jwtErrorHandler ext cfg (rw st) r err\<rparr>)
             | Inr parsedToken \<Rightarrow>
                 if Alg (SigningMethod (JWTMiddleware (setupJWTAuthMiddleware ext cfg)))
                      \<noteq> Header_alg parsedToken
                 then (Returned, st\<lparr>rw := jwtErrorHandler ext cfg (rw st) r
                         (''Expected ''
                          @ Alg (SigningMethod (JWTMiddleware (setupJWTAuthMiddleware ext cfg)))
                          @ '' signing method but token specified '' @ Header_alg parsedToken)\<rparr>)
                 else if \<not> Valid parsedToken
                 then (Returned, st\<lparr>rw := jwtErrorHandler ext cfg (rw st) r
                         ''The token isn't valid''\<rparr>)
                 else next (r\<lparr>ctx_values :=
                              (ctx_values r)
                                (UserProperty (JWTMiddleware (setupJWTAuthMiddleware ext cfg))
                                   \<mapsto> JwtToken parsedToken)\<rparr>)
                        st))
   \<and> (\<not> whitelist cfg (setupJWTAuthMiddleware ext cfg) r \<and> Method r = ''OPTIONS'' \<longrightarrow>
        CheckJWT ext (JWTMiddleware (setupJWTAuthMiddleware ext cfg)) r st = (None, r, st)
        \<and> auth_ServeHTTP ext cfg (setupJWTAuthMiddleware ext cfg) r next st = next r st)"
proof -
  let ?a = "setupJWTAuthMiddleware ext cfg"
  let ?opts = "JWTMiddleware ?a"
  have ex: "Extractor ?opts r =
     (case Cookie r (JWTAuthCookieTokenName cfg) of
        None \<Rightarrow> AuthHeaderToken r
      | Some c \<Rightarrow> if c \<noteq> [] then Inr c else AuthHeaderToken r)"
    by (rule Extractor_setup)
  have options: "CheckJWT ext ?opts r st = (None, r, st)
      \<and> auth_ServeHTTP ext cfg ?a r next st = next r st"
    if "\<not> whitelist cfg ?a r" "Method r = ''OPTIONS''"
    using that by (simp add: CheckJWT_def auth_ServeHTTP_cases)
  have rest: "Extractor ?opts r = Inr c
      \<and> CheckJWT ext ?opts r st = parse_and_store ext ?opts r st c
      \<and> auth_ServeHTTP ext cfg ?a r next st
          = (case jwt_Parse ext c (ValidationKeyGetter ?opts) of
               Inl err \<Rightarrow> (Returned, st\<lparr>rw := jwtErrorHandler ext cfg (rw st) r err\<rparr>)
             | Inr parsedToken \<Rightarrow>
                 if Alg (SigningMethod ?opts) \<noteq> Header_alg parsedToken
                 then (Returned, st\<lparr>rw := jwtErrorHandler ext cfg (rw st) r
                         (''Expected '' @ Alg (SigningMethod ?opts)
                          @ '' signing method but token specified '' @ Header_alg parsedToken)\<rparr>)
                 else if \<not> Valid parsedToken
                 then (Returned, st\<lparr>rw := jwtErrorHandler ext cfg (rw st) r
                         ''The token isn't valid''\<rparr>)
                 else next (r\<lparr>ctx_values :=
                              (ctx_values r)(UserProperty ?opts \<mapsto> JwtToken parsedToken)\<rparr>)
                        st)"
    if cookie: "Cookie r (JWTAuthCookieTokenName cfg) = Some c" "c \<noteq> []"
      and gate: "\<not> whitelist cfg ?a r" "Method r \<noteq> ''OPTIONS''"
  proof -
    have e: "Extractor ?opts r = Inr c"
      using cookie by (simp add: ex)
    have c: "CheckJWT ext ?opts r st = parse_and_store ext ?opts r st c"
      using gate(2) cookie(2) by (simp add: CheckJWT_def e)
    have a: "auth_ServeHTTP ext cfg ?a r next st
          = (case jwt_Parse ext c (ValidationKeyGetter ?opts) of
               Inl err \<Rightarrow> (Returned, st\<lparr>rw := jwtErrorHandler ext cfg (rw st) r err\<rparr>)
             | Inr parsedToken \<Rightarrow>
                 if Alg (SigningMethod ?opts) \<noteq> Header_alg parsedToken
                 then (Returned, st\<lparr>rw := jwtErrorHandler ext cfg (rw st) r
                         (''Expected '' @ Alg (SigningMethod ?opts)
                          @ '' signing method but token specified '' @ Header_alg parsedToken)\<rparr>)
                 else if \<not> Valid parsedToken
                 then (Returned, st\<lparr>rw := jwtErrorHandler ext cfg (rw st) r
                         ''The token isn't valid''\<rparr>)
                 else next (r\<lparr>ctx_values :=
                              (ctx_values r)(UserProperty ?opts \<mapsto> JwtToken parsedToken)\<rparr>)
                        st)"
      using gate cookie(2) by (simp add: auth_ServeHTTP_cases e split: sum.splits)
    from e c a show ?thesis by simp
  qed
  show ?thesis
    by (intro conjI impI; (elim conjE)?; simp add: ex rest options)
qed

text \<open>
  On the sample deployment, with the cookie \<open>access_token=good\<close> and the header token
  \<open>forged\<close>, the token handed to the verifier is \<open>good\<close> and the request is forwarded; with
  the two tokens exchanged the cookie's token \<open>forged\<close> is verified and the request rejected.
\<close>

theorem cookie_token_witness:
  "Extractor (JWTMiddleware (setupJWTAuthMiddleware sample_externals sample_config))
      ((get_request ''/api/v1/flags'')
         \<lparr>Cookie := [''access_token'' \<mapsto> ''good''], AuthHeaderToken := Inr ''forged''\<rparr>)
     = Inr ''good''
   \<and> auth_ServeHTTP sample_externals sample_config
        (setupJWTAuthMiddleware sample_externals sample_config)
        ((get_request ''/api/v1/flags'')
           \<lparr>Cookie := [''access_token'' \<mapsto> ''good''], AuthHeaderToken := Inr ''forged''\<rparr>)
        ok_handler new_state
     = (Returned, new_state\<lparr>rw := new_writer\<lparr>rw_status := 200\<rparr>\<rparr>)
   \<and> rw_status (rw (snd (auth_ServeHTTP sample_externals sample_config
        (setupJWTAuthMiddleware sample_externals sample_config)
        ((get_request ''/api/v1/flags'')
           \<lparr>Cookie := [''access_token'' \<mapsto> ''forged''], AuthHeaderToken := Inr ''good''\<rparr>)
        ok_handler new_state))) = 401"
proof -
  let ?a = "setupJWTAuthMiddleware sample_externals sample_config"
  let ?r = "(get_request ''/api/v1/flags'')
         \<lparr>Cookie := [''access_token'' \<mapsto> ''good''], AuthHeaderToken := Inr ''forged''\<rparr>"
  let ?r' = "(get_request ''/api/v1/flags'')
         \<lparr>Cookie := [''access_token'' \<mapsto> ''forged''], AuthHeaderToken := Inr ''good''\<rparr>"
  have key: "SigningMethod (JWTMiddleware ?a) = SigningMethodHS256"
    by (simp add: setup_fields signing_setup_def sample_config_fields)
  have hyp: "Cookie ?r (JWTAuthCookieTokenName sample_config) = Some ''good'' \<and> ''good'' \<noteq> []
      \<and> AuthHeaderToken ?r = Inr ''forged'' \<and> ''forged'' \<noteq> []
      \<and> \<not> whitelist sample_config ?a ?r \<and> Method ?r \<noteq> ''OPTIONS''"
    using sample_not_whitelisted [where ck = "[''access_token'' \<mapsto> ''good'']" and ah = "Inr ''forged''"]
    by (simp add: sample_config_fields get_request_def)
  have hyp': "Cookie ?r' (JWTAuthCookieTokenName sample_config) = Some ''forged'' \<and> ''forged'' \<noteq> []
      \<and> AuthHeaderToken ?r' = Inr ''good'' \<and> ''good'' \<noteq> []
      \<and> \<not> whitelist sample_config ?a ?r' \<and> Method ?r' \<noteq> ''OPTIONS''"
    using sample_not_whitelisted [where ck = "[''access_token'' \<mapsto> ''forged'']" and ah = "Inr ''good''"]
    by (simp add: sample_config_fields get_request_def)
  have one: "Extractor (JWTMiddleware ?a) ?r = Inr ''good''
      \<and> auth_ServeHTTP sample_externals sample_config ?a ?r ok_handler new_state
         = (Returned, new_state\<lparr>rw := new_writer\<lparr>rw_status := 200\<rparr>\<rparr>)"
    using cookie_token_takes_precedence [where ext = sample_externals and cfg = sample_config
        and r = ?r and c = "''good''" and h = "''forged''" and st = new_state and ?next = ok_handler]
      hyp
    by (simp add: key sample_externals_fields sample_Parse_def admin_token_def ok_handler_def
        new_state_def)
  have two: "rw_status (rw (snd (auth_ServeHTTP sample_externals sample_config ?a ?r'
        ok_handler new_state))) = 401"
    using cookie_token_takes_precedence [where ext = sample_externals and cfg = sample_config
        and r = ?r' and c = "''forged''" and h = "''good''" and st = new_state and ?next = ok_handler]
      hyp'
    by (simp add: key sample_externals_fields sample_Parse_def sample_rejected_status)
  from one two show ?thesis by simp
qed

text \<open>
  The claim as stated, for every request that is not whitelisted, fails for an OPTIONS
  request: the cookie holds a token that the verifier rejects, the header one that it
  accepts, and the request is forwarded with neither extracted or verified, its context
  without token.
\<close>

theorem OPTIONS_request_with_tokens_is_not_verified:
  "Cookie ((get_request ''/api/v1/flags'')
         \<lparr>Method := ''OPTIONS'', Cookie := [''access_token'' \<mapsto> ''forged''],
          AuthHeaderToken := Inr ''good''\<rparr>) (JWTAuthCookieTokenName sample_config)
     = Some ''forged''
   \<and> \<not> whitelist sample_config (setupJWTAuthMiddleware sample_externals sample_config)
       ((get_request ''/api/v1/flags'')
         \<lparr>Method := ''OPTIONS'', Cookie := [''access_token'' \<mapsto> ''forged''],
          AuthHeaderToken := Inr ''good''\<rparr>)
   \<and> jwt_Parse sample_externals ''forged''
        (ValidationKeyGetter (JWTMiddleware (setupJWTAuthMiddleware sample_externals sample_config)))
      = Inl ''signature is invalid''
   \<and> CheckJWT sample_externals (JWTMiddleware (setupJWTAuthMiddleware sample_externals sample_config))
       ((get_request ''/api/v1/flags'')
         \<lparr>Method := ''OPTIONS'', Cookie := [''access_token'' \<mapsto> ''forged''],
          AuthHeaderToken := Inr ''good''\<rparr>) new_state
      = (None,
         (get_request ''/api/v1/flags'')
           \<lparr>Method := ''OPTIONS'', Cookie := [''access_token'' \<mapsto> ''forged''],
            AuthHeaderToken := Inr ''good''\<rparr>,
         new_state)
   \<and> auth_ServeHTTP sample_externals sample_config
       (setupJWTAuthMiddleware sample_externals sample_config)
       ((get_request ''/api/v1/flags'')
         \<lparr>Method := ''OPTIONS'', Cookie := [''access_token'' \<mapsto> ''forged''],
          AuthHeaderToken := Inr ''good''\<rparr>) ok_handler new_state
     = (Returned, new_state\<lparr>rw := new_writer\<lparr>rw_status := 200\<rparr>\<rparr>)"
proof -
  let ?a = "setupJWTAuthMiddleware sample_externals sample_config"
  let ?r = "(get_request ''/api/v1/flags'')
         \<lparr>Method := ''OPTIONS'', Cookie := [''access_token'' \<mapsto> ''forged''],
          AuthHeaderToken := Inr ''good''\<rparr>"
  have c: "Cookie ?r (JWTAuthCookieTokenName sample_config) = Some ''forged''"
    by (simp add: sample_config_fields)
  have w: "\<not> whitelist sample_config ?a ?r"
    by (simp add: sample_whitelist_iff get_request_def)
  have p: "jwt_Parse sample_externals ''forged'' (ValidationKeyGetter (JWTMiddleware ?a))
      = Inl ''signature is invalid''"
    by (simp add: sample_externals_fields sample_Parse_def)
  have m: "Method ?r = ''OPTIONS''"
    by simp
  have k: "CheckJWT sample_externals (JWTMiddleware ?a) ?r new_state = (None, ?r, new_state)"
    using m by (simp add: CheckJWT_def)
  have "auth_ServeHTTP sample_externals sample_config ?a ?r ok_handler new_state
      = ok_handler ?r new_state"
    using w m by (simp add: auth_ServeHTTP_cases)
  then have f: "auth_ServeHTTP sample_externals sample_config ?a ?r ok_handler new_state
      = (Returned, new_state\<lparr>rw := new_writer\<lparr>rw_status := 200\<rparr>\<rparr>)"
    by (simp add: ok_handler_def new_state_def)
  from c w p k f show ?thesis by simp
qed

subsection \<open>C6: the group gate and whitelisted requests\<close>

text \<open>
  Claim C6. When the request context carries \<open>whiteListed = true\<close>, \<open>checkGroups\<close> holds
  and \<open>requireGroupClaim.ServeHTTP\<close> calls \<open>next\<close> on the request, for every required group
  and whatever the context holds under the user property.
\<close>

theorem GroupClaimGate_passes_whitelisted:
  "ctx_whiteListed r = Some True \<Longrightarrow>
   checkGroups cfg c r \<and> requireGroupClaim_ServeHTTP ext cfg c r next st = next r st"
  by (simp add: checkGroups_def requireGroupClaim_ServeHTTP_def)

text \<open>A whitelisted request without any token passes the gate that requires \<open>admin\<close>.\<close>

theorem GroupClaimGate_passes_whitelisted_witness:
  "ctx_whiteListed ((get_request ''/public/health'')\<lparr>ctx_whiteListed := Some True\<rparr>) = Some True
   \<and> ctx_values ((get_request ''/public/health'')\<lparr>ctx_whiteListed := Some True\<rparr>)
        (JWTAuthUserProperty sample_config) = None
   \<and> checkGroups sample_config \<lparr>Group = ''admin''\<rparr>
        ((get_request ''/public/health'')\<lparr>ctx_whiteListed := Some True\<rparr>)
   \<and> requireGroupClaim_ServeHTTP sample_externals sample_config \<lparr>Group = ''admin''\<rparr>
        ((get_request ''/public/health'')\<lparr>ctx_whiteListed := Some True\<rparr>) ok_handler new_state
      = (Returned, new_state\<lparr>rw := new_writer\<lparr>rw_status := 200\<rparr>\<rparr>)"
  using GroupClaimGate_passes_whitelisted [where ext = sample_externals and cfg = sample_config
      and r = "(get_request ''/public/health'')\<lparr>ctx_whiteListed := Some True\<rparr>"
      and c = "\<lparr>Group = ''admin''\<rparr>" and ?next = ok_handler and st = new_state]
  by (simp add: get_request_def ok_handler_def new_state_def)

subsection \<open>C7: the group gate and requests that are not whitelisted\<close>

text \<open>
  Claim C7. For a request that is not marked as whitelisted, \<open>checkGroups\<close> holds exactly
  when the context holds a valid token with map claims and the required group is among the
  strings read from its \<open>groups\<close> claim. Every other request is answered by
  \<open>jwtErrorHandler\<close>, the answer to an unauthenticated request, and the gate returns
  normally; this is so in particular when the context holds nothing under the user property.
  A \<open>groups\<close> claim that is absent, null or not a collection of strings is read as the empty
  slice, and with the empty slice the request is rejected.
\<close>

theorem GroupClaimGate_rejects_without_group:
  "ctx_whiteListed r \<noteq> Some True \<Longrightarrow>
   (checkGroups cfg c r \<longleftrightarrow>
      (\<exists>token claims. ctx_values r (JWTAuthUserProperty cfg) = Some (JwtToken token)
         \<and> Claims token = MapClaims claims \<and> Valid token
         \<and> Group c \<in> set (SafeStringSlice (map_index claims ''groups''))))
   \<and> (\<not> checkGroups cfg c r \<longrightarrow>
        requireGroupClaim_ServeHTTP ext cfg c r next st =
          (Returned, st\<lparr>rw := jwtErrorHandler ext cfg (rw st) r ''Not member of authorized group''\<rparr>))
   \<and> (ctx_values r (JWTAuthUserProperty cfg) = None \<longrightarrow> \<not> checkGroups cfg c r)
   \<and> (claims ''groups'' = None \<longrightarrow> SafeStringSlice (map_index claims ''groups'') = [])
   \<and> (claims ''groups'' = Some Nil \<longrightarrow> SafeStringSlice (map_index claims ''groups'') = [])
   \<and> (\<not> is_string_collection (map_index claims ''groups'') \<longrightarrow>
        SafeStringSlice (map_index claims ''groups'') = [])
   \<and> (ctx_values r (JWTAuthUserProperty cfg) = Some (JwtToken token)
        \<and> Claims token = MapClaims claims
        \<and> SafeStringSlice (map_index claims ''groups'') = [] \<longrightarrow> \<not> checkGroups cfg c r)"
  using checkGroups_iff [of cfg c r]
  by (auto simp: requireGroupClaim_ServeHTTP_def map_index_def SafeStringSlice_not_collection)

text \<open>
  On the sample deployment: no token, a token whose \<open>groups\<close> claim is a plain string, and a
  token without the claim are rejected; the token with \<open>groups = ["admin"]\<close> passes.
\<close>

theorem GroupClaimGate_rejects_witness:
  "requireGroupClaim_ServeHTTP sample_externals sample_config \<lparr>Group = ''admin''\<rparr>
      (get_request ''/api/v1/flags'') ok_handler new_state
     = (Returned, new_state\<lparr>rw := jwtErrorHandler sample_externals sample_config new_writer
          (get_request ''/api/v1/flags'') ''Not member of authorized group''\<rparr>)
   \<and> \<not> checkGroups sample_config \<lparr>Group = ''admin''\<rparr>
        (request_with_token (admin_token\<lparr>Claims := MapClaims [''groups'' \<mapsto> Str ''admin'']\<rparr>))
   \<and> \<not> checkGroups sample_config \<lparr>Group = ''admin''\<rparr>
        (request_with_token (admin_token\<lparr>Claims := MapClaims (\<lambda>name. None)\<rparr>))
   \<and> checkGroups sample_config \<lparr>Group = ''admin''\<rparr> (request_with_token admin_token)"
  using GroupClaimGate_rejects_without_group [where ext = sample_externals and cfg = sample_config
      and r = "get_request ''/api/v1/flags''" and c = "\<lparr>Group = ''admin''\<rparr>"
      and ?next = ok_handler and st = new_state and claims = "\<lambda>name. None" and token = admin_token]
    GroupClaimGate_rejects_without_group [where ext = sample_externals and cfg = sample_config
      and r = "request_with_token (admin_token\<lparr>Claims := MapClaims [''groups'' \<mapsto> Str ''admin'']\<rparr>)"
      and c = "\<lparr>Group = ''admin''\<rparr>" and ?next = ok_handler and st = new_state
      and claims = "[''groups'' \<mapsto> Str ''admin'']"
      and token = "admin_token\<lparr>Claims := MapClaims [''groups'' \<mapsto> Str ''admin'']\<rparr>"]
    GroupClaimGate_rejects_without_group [where ext = sample_externals and cfg = sample_config
      and r = "request_with_token (admin_token\<lparr>Claims := MapClaims (\<lambda>name. None)\<rparr>)"
      and c = "\<lparr>Group = ''admin''\<rparr>" and ?next = ok_handler and st = new_state
      and claims = "\<lambda>name. None"
      and token = "admin_token\<lparr>Claims := MapClaims (\<lambda>name. None)\<rparr>"]
    GroupClaimGate_rejects_without_group [where ext = sample_externals and cfg = sample_config
      and r = "request_with_token admin_token" and c = "\<lparr>Group = ''admin''\<rparr>"
      and ?next = ok_handler and st = new_state
      and claims = "[''groups'' \<mapsto> Slice [Str ''admin'']]" and token = admin_token]
  by (simp add: sample_config_fields get_request_def request_with_token_def new_state_def
      admin_token_def map_index_def)

subsection \<open>C8: one response for every rejection\<close>



subsection \<open>C9: what the telemetry gates record\<close>

text \<open>
  Claim C9, as the code has it. Whatever the rest of the chain does with a request, forward
  it or reject it, the statsd gate passes its outcome and its response on and adds exactly
  one count and one duration, both tagged with the status read from the writer once the rest
  of the chain is done. For a request that is not for the scrape path the Prometheus gate
  does the same with one increment of its counter and, when the histogram is set, one
  latency observation. A request for the scrape path is handed to the scrape handler, and
  the Prometheus gate records nothing for it. The statsd gate makes no such exception: it
  records the scrape request like any other.
\<close>

theorem telemetry_gates_record_once:
  "fst (statsdMiddleware_ServeHTTP r next st) = fst (next r st)
   \<and> rw (snd (statsdMiddleware_ServeHTTP r next st)) = rw (snd (next r st))
   \<and> statsd_calls (snd (statsdMiddleware_ServeHTTP r next st)) =
       statsd_calls (snd (next r st)) @
         [Incr ''http.requests.count''
            [''status:'' @ Itoa (rw_status (rw (snd (next r st)))),
             ''path:'' @ RequestURI r, ''method:'' @ Method r],
          TimeInMilliseconds ''http.requests.duration''
            [''status:'' @ Itoa (rw_status (rw (snd (next r st)))),
             ''path:'' @ RequestURI r, ''method:'' @ Method r]]
   \<and> (URL_EscapedPath r \<noteq> Prometheus_ScrapePath g \<longrightarrow>
        fst (prometheusMiddleware_ServeHTTP ext g r next st) = fst (next r st)
        \<and> rw (snd (prometheusMiddleware_ServeHTTP ext g r next st)) = rw (snd (next r st))
        \<and> prom_counter (snd (prometheusMiddleware_ServeHTTP ext g r next st)) =
            prom_counter (snd (next r st)) @
              [(Itoa (rw_status (rw (snd (next r st)))), RequestURI r, Method r)]
        \<and> prom_latencies (snd (prometheusMiddleware_ServeHTTP ext g r next st)) =
            (if Prometheus_RequestHistogram g
             then prom_latencies (snd (next r st)) @
                    [(Itoa (rw_status (rw (snd (next r st)))), RequestURI r, Method r)]
             else prom_latencies (snd (next r st))))
   \<and> (URL_EscapedPath r = Prometheus_ScrapePath g \<longrightarrow>
        prometheusMiddleware_ServeHTTP ext g r next st = promhttp_Handler ext r st)"
  by (simp add: statsdMiddleware_ServeHTTP_def prometheusMiddleware_ServeHTTP_def Let_def
      split: prod.splits)

text \<open>
  On the sample deployment each telemetry gate in front of the JWT gate records the status
  401 of a rejected request once, and the Prometheus gate answers the scrape path itself.
\<close>

theorem telemetry_gates_witness:
  "statsd_calls (snd (statsdMiddleware_ServeHTTP (get_request ''/api/v1/flags'')
      (\<lambda>r. auth_ServeHTTP sample_externals sample_config
          (setupJWTAuthMiddleware sample_externals sample_config) r ok_handler) new_state))
     = [Incr ''http.requests.count'' [''status:401'', ''path:/api/v1/flags'', ''method:GET''],
        TimeInMilliseconds ''http.requests.duration''
          [''status:401'', ''path:/api/v1/flags'', ''method:GET'']]
   \<and> prom_counter (snd (prometheusMiddleware_ServeHTTP sample_externals sample_global
        (get_request ''/api/v1/flags'')
        (\<lambda>r. auth_ServeHTTP sample_externals sample_config
          (setupJWTAuthMiddleware sample_externals sample_config) r ok_handler) new_state))
     = [(''401'', ''/api/v1/flags'', ''GET'')]
   \<and> prom_latencies (snd (prometheusMiddleware_ServeHTTP sample_externals sample_global
        (get_request ''/api/v1/flags'')
        (\<lambda>r. auth_ServeHTTP sample_externals sample_config
          (setupJWTAuthMiddleware sample_externals sample_config) r ok_handler) new_state))
     = [(''401'', ''/api/v1/flags'', ''GET'')]
   \<and> prometheusMiddleware_ServeHTTP sample_externals sample_global (get_request ''/metrics'')
        ok_handler new_state
     = (Returned, new_state\<lparr>rw := new_writer\<lparr>rw_status := 200\<rparr>\<rparr>)"
proof -
  let ?r = "get_request ''/api/v1/flags''"
  let ?next = "\<lambda>r. auth_ServeHTTP sample_externals sample_config
          (setupJWTAuthMiddleware sample_externals sample_config) r ok_handler"
  have fields: "URL_EscapedPath ?r \<noteq> Prometheus_ScrapePath sample_global"
    "RequestURI ?r = ''/api/v1/flags''" "Method ?r = ''GET''"
    "Prometheus_RequestHistogram sample_global"
    "URL_EscapedPath (get_request ''/metrics'') = Prometheus_ScrapePath sample_global"
    by (simp_all add: get_request_def sample_global_def)
  have empty: "statsd_calls new_state = []" "prom_counter new_state = []"
    "prom_latencies new_state = []"
    by (simp_all add: new_state_def)
  have scrape: "promhttp_Handler sample_externals (get_request ''/metrics'') new_state
     = (Returned, new_state\<lparr>rw := new_writer\<lparr>rw_status := 200\<rparr>\<rparr>)"
    by (simp add: sample_externals_fields ok_handler_def new_state_def)
  show ?thesis
    using telemetry_gates_record_once [where r = ?r and ?next = ?next and st = new_state
        and g = sample_global and ext = sample_externals]
      telemetry_gates_record_once [where r = "get_request ''/metrics''" and ?next = ok_handler
        and st = new_state and g = sample_global and ext = sample_externals]
    by (simp add: fields empty scrape sample_rejected sample_rejected_status Itoa_samples)
qed

text \<open>
  The claim as stated, that a request for the scrape path produces no latency observation,
  fails when the statsd gate is enabled as well: it stands in front of the Prometheus gate
  and times the scrape request.
\<close>

theorem statsd_times_the_scrape_request:
  "URL_EscapedPath (get_request ''/metrics'') = Prometheus_ScrapePath sample_global
   \<and> used_gates (sample_config\<lparr>StatsdEnabled := True, PrometheusEnabled := True\<rparr>)
       = [Statsd, Prometheus, JWTAuth, Static, Recovery]
   \<and> statsd_calls (snd (SetupGlobalMiddleware sample_externals sample_global
        (sample_config\<lparr>StatsdEnabled := True, PrometheusEnabled := True\<rparr>) ok_handler
        (get_request ''/metrics'') new_state))
     = [Incr ''http.requests.count'' [''status:200'', ''path:/metrics'', ''method:GET''],
        TimeInMilliseconds ''http.requests.duration''
          [''status:200'', ''path:/metrics'', ''method:GET'']]"
proof -
  let ?cfg = "sample_config\<lparr>StatsdEnabled := True, PrometheusEnabled := True\<rparr>"
  have g: "used_gates ?cfg = [Statsd, Prometheus, JWTAuth, Static, Recovery]"
    by (simp add: used_gates_def sample_config_def)
  have p: "URL_EscapedPath (get_request ''/metrics'') = Prometheus_ScrapePath sample_global"
    by (simp add: get_request_def sample_global_def)
  have "SetupGlobalMiddleware sample_externals sample_global ?cfg ok_handler
        (get_request ''/metrics'') new_state
      = statsdMiddleware_ServeHTTP (get_request ''/metrics'')
          (\<lambda>r st. prometheusMiddleware_ServeHTTP sample_externals sample_global r
             (chain_onto (map (gate_handler sample_externals sample_global ?cfg)
                [JWTAuth, Static, Recovery]) (final_handler sample_externals ?cfg ok_handler)) st)
          new_state"
    by (simp add: SetupGlobalMiddleware_chain g)
  also have "\<dots> = (Returned,
      new_state\<lparr>rw := new_writer\<lparr>rw_status := 200\<rparr>,
        statsd_calls :=
          [Incr ''http.requests.count'' [''status:200'', ''path:/metrics'', ''method:GET''],
           TimeInMilliseconds ''http.requests.duration''
             [''status:200'', ''path:/metrics'', ''method:GET'']]\<rparr>)"
    by (simp add: statsdMiddleware_ServeHTTP_def prometheusMiddleware_ServeHTTP_def Let_def
        sample_global_def sample_externals_fields ok_handler_def new_state_def Itoa_samples
        get_request_def)
  finally show ?thesis using g p by simp
qed

subsection \<open>C10: the group gate without the JWT gate\<close>

text \<open>
  Claim C10. The group gate is in the chain exactly when \<open>JWTAuthRequireGroupClaim\<close> is
  not empty, and the JWT gate exactly when \<open>JWTAuthEnabled\<close> is set: the two are independent.
  The group gate answers every request whose context is neither marked as whitelisted nor
  holds a token with the rejection of \<open>jwtErrorHandler\<close>, without calling \<open>next\<close>. So with
  the JWT gate disabled and a required group configured, and the middlewares of other
  packages handing the request context on as they got it, the chain is the gates ahead of
  the group gate around that rejection: the static gate and the application handler are
  never reached.
\<close>

theorem group_gate_without_auth_gate_rejects:
  "(RequireGroupClaim \<in> set (used_gates cfg) \<longleftrightarrow> JWTAuthRequireGroupClaim cfg \<noteq> [])
   \<and> (JWTAuth \<in> set (used_gates cfg) \<longleftrightarrow> JWTAuthEnabled cfg)
   \<and> (unauthenticated cfg r \<longrightarrow>
        requireGroupClaim_ServeHTTP ext cfg (setupJWTRequireGroupClaimMiddleware cfg) r next st =
          (Returned, st\<lparr>rw := jwtErrorHandler ext cfg (rw st) r ''Not member of authorized group''\<rparr>))
   \<and> (\<not> JWTAuthEnabled cfg \<and> JWTAuthRequireGroupClaim cfg \<noteq> [] \<and> unauthenticated cfg r
        \<and> passes_context cfg (gzip_Gzip ext) \<and> passes_context cfg (negronilogrus_Middleware ext)
        \<and> passes_context cfg (negroninewrelic_Newrelic ext) \<and> passes_context cfg (cors_New ext)
       \<longrightarrow>
        SetupGlobalMiddleware ext g cfg handler r st =
          chain_onto (map (gate_handler ext g cfg) (gates_before_auth cfg))
            (\<lambda>r st. (Returned,
               st\<lparr>rw := jwtErrorHandler ext cfg (rw st) r ''Not member of authorized group''\<rparr>))
            r st)"
proof -
  have a: "RequireGroupClaim \<in> set (used_gates cfg) \<longleftrightarrow> JWTAuthRequireGroupClaim cfg \<noteq> []"
    by (simp add: used_gates_def)
  have b: "JWTAuth \<in> set (used_gates cfg) \<longleftrightarrow> JWTAuthEnabled cfg"
    by (simp add: used_gates_def)
  have c: "requireGroupClaim_ServeHTTP ext cfg (setupJWTRequireGroupClaimMiddleware cfg) r next st =
      (Returned, st\<lparr>rw := jwtErrorHandler ext cfg (rw st) r ''Not member of authorized group''\<rparr>)"
    if "unauthenticated cfg r"
    using that by (rule group_gate_rejects_unauthenticated)
  have d: "SetupGlobalMiddleware ext g cfg handler r st =
      chain_onto (map (gate_handler ext g cfg) (gates_before_auth cfg))
        (\<lambda>r st. (Returned,
           st\<lparr>rw := jwtErrorHandler ext cfg (rw st) r ''Not member of authorized group''\<rparr>))
        r st"
    if off: "\<not> JWTAuthEnabled cfg" and grp: "JWTAuthRequireGroupClaim cfg \<noteq> []"
      and un: "unauthenticated cfg r"
      and pc: "passes_context cfg (gzip_Gzip ext)" "passes_context cfg (negronilogrus_Middleware ext)"
        "passes_context cfg (negroninewrelic_Newrelic ext)" "passes_context cfg (cors_New ext)"
  proof -
    let ?front = "map (gate_handler ext g cfg) (gates_before_auth cfg)"
    let ?k = "chain_onto (map (gate_handler ext g cfg) [RequireGroupClaim, Static, Recovery])
        (final_handler ext cfg handler)"
    let ?k' = "\<lambda>r st. (Returned,
        st\<lparr>rw := jwtErrorHandler ext cfg (rw st) r ''Not member of authorized group''\<rparr>)"
    have split: "SetupGlobalMiddleware ext g cfg handler = chain_onto ?front ?k"
      by (simp add: SetupGlobalMiddleware_chain used_gates_without_auth [OF off grp]
          chain_onto_append)
    have agree: "\<forall>r st. unauthenticated cfg r \<longrightarrow> ?k r st = ?k' r st"
      by (simp add: group_gate_rejects_unauthenticated)
    have "chain_onto ?front ?k r st = chain_onto ?front ?k' r st"
      by (rule chain_onto_cong [OF front_passes_context [OF pc] agree un])
    with split show ?thesis by simp
  qed
  from a b c d show ?thesis by blast
qed

text \<open>
  On the sample deployment with the JWT gate disabled, the group \<open>admin\<close> required and statsd
  enabled, a request is rejected with status 401 and the application handler is not run.
\<close>

theorem group_gate_without_auth_gate_witness:
  "RequireGroupClaim \<in> set (used_gates
      (sample_config\<lparr>StatsdEnabled := True, JWTAuthEnabled := False,
                      JWTAuthRequireGroupClaim := ''admin''\<rparr>))
   \<and> JWTAuth \<notin> set (used_gates
      (sample_config\<lparr>StatsdEnabled := True, JWTAuthEnabled := False,
                      JWTAuthRequireGroupClaim := ''admin''\<rparr>))
   \<and> SetupGlobalMiddleware sample_externals sample_global
        (sample_config\<lparr>StatsdEnabled := True, JWTAuthEnabled := False,
                        JWTAuthRequireGroupClaim := ''admin''\<rparr>)
        ok_handler (get_request ''/api/v1/flags'') new_state
      = (Returned,
         new_state
           \<lparr>rw := jwtErrorHandler sample_externals sample_config new_writer (get_request ''/api/v1/flags'')
                   ''Not member of authorized group'',
            statsd_calls :=
              [Incr ''http.requests.count''
                 [''status:401'', ''path:/api/v1/flags'', ''method:GET''],
               TimeInMilliseconds ''http.requests.duration''
                 [''status:401'', ''path:/api/v1/flags'', ''method:GET'']]\<rparr>)"
proof -
  let ?cfg = "sample_config\<lparr>StatsdEnabled := True, JWTAuthEnabled := False,
                      JWTAuthRequireGroupClaim := ''admin''\<rparr>"
  let ?r = "get_request ''/api/v1/flags''"
  have un: "unauthenticated ?cfg ?r"
    by (simp add: unauthenticated_def get_request_def)
  have cfg: "\<not> JWTAuthEnabled ?cfg" "JWTAuthRequireGroupClaim ?cfg \<noteq> []"
    "JWTAuthNoTokenStatusCode ?cfg = 401"
    by (simp_all add: sample_config_def)
  have front: "gates_before_auth ?cfg = [Statsd]"
    by (simp add: gates_before_auth_def sample_config_def)
  have same: "jwtErrorHandler sample_externals ?cfg w r e = jwtErrorHandler sample_externals sample_config w r e" for w r e
    by (simp add: jwtErrorHandler_def)
  have req: "RequestURI ?r = ''/api/v1/flags''" "Method ?r = ''GET''"
    by (simp_all add: get_request_def)
  note inst = group_gate_without_auth_gate_rejects [where cfg = ?cfg and r = ?r
      and ext = sample_externals and g = sample_global and handler = ok_handler
      and st = new_state and ?next = ok_handler]
  have run: "SetupGlobalMiddleware sample_externals sample_global ?cfg ok_handler ?r new_state
      = chain_onto (map (gate_handler sample_externals sample_global ?cfg) (gates_before_auth ?cfg))
          (\<lambda>r st. (Returned,
             st\<lparr>rw := jwtErrorHandler sample_externals ?cfg (rw st) r ''Not member of authorized group''\<rparr>))
          ?r new_state"
    using inst un cfg pass_on_passes_context [of ?cfg]
    by (simp add: sample_externals_fields)
  have "SetupGlobalMiddleware sample_externals sample_global ?cfg ok_handler ?r new_state
      = (Returned,
         new_state
           \<lparr>rw := jwtErrorHandler sample_externals sample_config new_writer ?r ''Not member of authorized group'',
            statsd_calls :=
              [Incr ''http.requests.count''
                 [''status:401'', ''path:/api/v1/flags'', ''method:GET''],
               TimeInMilliseconds ''http.requests.duration''
                 [''status:401'', ''path:/api/v1/flags'', ''method:GET'']]\<rparr>)"
    unfolding run
    by (simp add: front statsdMiddleware_ServeHTTP_def Let_def same req
        rejected_status sample_config_fields Itoa_samples new_state_def)
  with inst cfg show ?thesis by simp
qed

end
